theory Spec2Isabelle
  imports Main "HOL-Library.Word"
begin

unbundle bit_operations_syntax

section \<open>The VPN packet path of net\_packet.c\<close>

text \<open>
  A shallow embedding of \<^verbatim>\<open>src/net_packet.c\<close>. The C functions mutate the nodes they are
  handed and call into the rest of the daemon (routing, the meta connections, the
  crypto and compression libraries, the sockets). Here

  \<^item> the nodes live in a store indexed by their pointer, and every function takes the
    store and returns the updated one;
  \<^item> a call that leaves this file for a collaborator that acts (\<^verbatim>\<open>route\<close>,
    \<^verbatim>\<open>send_tcppacket\<close>, \<^verbatim>\<open>sendto\<close>, ...) is recorded, in order, in a trace;
  \<^item> what a collaborator returns (a MAC check, a ciphertext, a compressed buffer, the
    outcome of \<^verbatim>\<open>sendto\<close>) is read from a record of functions, the environment;
  \<^item> every early \<^verbatim>\<open>return\<close> is a branch of the model. Log lines are not modelled.

  Sequence numbers are \<^verbatim>\<open>uint32_t\<close> and are 32-bit words here. \<^verbatim>\<open>size_t\<close> is taken to
  be 64 bits wide: the sums of a sequence number and \<^verbatim>\<open>sizeof n->late * 8\<close> are done in
  \<^verbatim>\<open>nat\<close> and do not wrap.

  \<^verbatim>\<open>length_t\<close> is a 16-bit signed integer. A length that a caller or a collaborator
  hands over in a wider type (the \<^verbatim>\<open>int len\<close> of \<^verbatim>\<open>receive_tcppacket\<close>, the lengths the
  compressors and ciphers store, the length of a digest) is narrowed where the code
  stores it into a \<^verbatim>\<open>length_t\<close> (\<open>to_length_t\<close>). The differences and sums of a length
  that is in a packet already with the constants of this file (4, \<^verbatim>\<open>MTU/64 + 20\<close>, 1) are
  taken as they are: they leave the range only for lengths no packet buffer holds.
\<close>

subsection \<open>Data\<close>

type_synonym byte = "8 word"
type_synonym uint32_t = "32 word"
type_synonym length_t = int
type_synonym node_ptr = nat
type_synonym connection_ptr = nat

text \<open>Cipher and digest contexts are opaque: the environment says what they do.\<close>

type_synonym cipher_t = nat
type_synonym digest_t = nat

record sockaddr_t =
  sa_family :: nat
  sa_host :: "byte list"
  sa_port :: nat

text \<open>
  \<^verbatim>\<open>vpn_packet_t\<close>: the sequence number slot and the data buffer are contiguous in
  memory; the crypto functions and \<^verbatim>\<open>sendto\<close> are handed the region that starts at the
  slot. The region is passed here as the pair of the slot and the buffer.
\<close>

record vpn_packet_t =
  len :: length_t
  priority :: int
  seqno :: uint32_t
  data :: "byte list"

text \<open>\<^verbatim>\<open>node_t\<close>, with the fields this file reads or writes.\<close>

record node_t =
  validkey :: bool
  waitingforkey :: bool
  reachable :: bool
  options :: uint32_t
  address :: sockaddr_t
  incipher :: cipher_t
  outcipher :: cipher_t
  indigest :: digest_t
  outdigest :: digest_t
  inmaclength :: nat
  incompression :: int
  outcompression :: int
  sent_seqno :: uint32_t
  received_seqno :: uint32_t
  late :: "byte list"
  mtu :: length_t
  minmtu :: length_t
  maxmtu :: length_t
  mtuprobes :: int
  nexthop :: node_ptr
  via :: node_ptr
  connection :: "connection_ptr option"

text \<open>\<^verbatim>\<open>connection_t\<close>: \<^verbatim>\<open>c->options\<close> and \<^verbatim>\<open>c->node\<close>.\<close>

record connection_t =
  c_options :: uint32_t
  c_node :: node_ptr

text \<open>\<^verbatim>\<open>edge_t\<close>: \<^verbatim>\<open>e->address\<close> and \<^verbatim>\<open>e->to\<close>.\<close>

record edge_t =
  e_address :: sockaddr_t
  e_to :: node_ptr

record listen_socket_t =
  ls_family :: nat
  ls_udp :: int

datatype sendto_result = Sendto_ok | Sendto_EMSGSIZE | Sendto_error

text \<open>The calls that leave this file.\<close>

datatype event =
    Route node_ptr vpn_packet_t
  | Send_tcppacket "connection_ptr option" vpn_packet_t
  | Terminate_connection "connection_ptr option"
  | Send_req_key node_ptr
  | Regenerate_key
  | Setsockopt_tos int int
  | Sendto int uint32_t "byte list" length_t sockaddr_t
  | Update_node_udp node_ptr sockaddr_t
  | Write_packet vpn_packet_t
  | Event_add node_ptr

text \<open>
  The environment: the constants and globals declared outside this file, and the results
  of the collaborators. A compressor returns its return code, the length it stored
  through its length pointer, and the destination buffer it wrote. A cipher returns the
  slot and buffer of the output region and the output length, or \<open>None\<close> when it fails.
  \<open>digest_create\<close> returns the buffer of the region with the MAC written.
  \<open>uninit\<close> is what an uninitialised local packet holds. \<open>random i\<close> is what the
  \<open>i\<close>-th iteration of the probe loop gets from \<^verbatim>\<open>random()\<close>, and \<open>randomize i k\<close> the
  \<open>k\<close> bytes it gets from \<^verbatim>\<open>randomize\<close>.
\<close>

record env =
  OPTION_TCPONLY :: uint32_t
  OPTION_PMTU_DISCOVERY :: uint32_t
  MTU :: int
  MAXSIZE :: nat
  AF_INET :: nat
  have_ip_tos :: bool
  priorityinheritance :: bool
  overwrite_mac :: bool
  mymac :: "byte list"
  myself :: node_ptr
  edge_weight_tree :: "edge_t list"
  listen_sockets :: nat
  listen_socket :: "nat \<Rightarrow> listen_socket_t"
  uninit :: vpn_packet_t
  cipher_active :: "cipher_t \<Rightarrow> bool"
  cipher_encrypt :: "cipher_t \<Rightarrow> uint32_t \<Rightarrow> byte list \<Rightarrow> length_t \<Rightarrow> (uint32_t \<times> byte list \<times> nat) option"
  cipher_decrypt :: "cipher_t \<Rightarrow> uint32_t \<Rightarrow> byte list \<Rightarrow> length_t \<Rightarrow> (uint32_t \<times> byte list \<times> nat) option"
  digest_active :: "digest_t \<Rightarrow> bool"
  digest_length :: "digest_t \<Rightarrow> nat"
  digest_verify :: "digest_t \<Rightarrow> uint32_t \<Rightarrow> byte list \<Rightarrow> length_t \<Rightarrow> bool"
  digest_create :: "digest_t \<Rightarrow> uint32_t \<Rightarrow> byte list \<Rightarrow> length_t \<Rightarrow> byte list"
  lzo1x_1_compress :: "byte list \<Rightarrow> length_t \<Rightarrow> int \<times> nat \<times> byte list"
  lzo1x_999_compress :: "byte list \<Rightarrow> length_t \<Rightarrow> int \<times> nat \<times> byte list"
  compress2 :: "byte list \<Rightarrow> length_t \<Rightarrow> int \<Rightarrow> int \<times> nat \<times> byte list"
  lzo1x_decompress_safe :: "byte list \<Rightarrow> length_t \<Rightarrow> int \<times> nat \<times> byte list"
  uncompress :: "byte list \<Rightarrow> length_t \<Rightarrow> int \<times> nat \<times> byte list"
  sendto :: "int \<Rightarrow> uint32_t \<Rightarrow> byte list \<Rightarrow> length_t \<Rightarrow> sockaddr_t \<Rightarrow> sendto_result"
  send_tcppacket :: "connection_ptr option \<Rightarrow> vpn_packet_t \<Rightarrow> bool"
  sockaddrcmp_noport :: "sockaddr_t \<Rightarrow> sockaddr_t \<Rightarrow> int"
  sockaddrunmap :: "sockaddr_t \<Rightarrow> sockaddr_t"
  lookup_node_udp :: "sockaddr_t \<Rightarrow> node_ptr option"
  random :: "nat \<Rightarrow> int"
  randomize :: "nat \<Rightarrow> nat \<Rightarrow> byte list"

text \<open>
  The state the functions of this file change: the nodes, the \<^verbatim>\<open>static int priority\<close>
  of \<^verbatim>\<open>send_udppacket\<close>, and the trace of the calls made so far.
\<close>

record world =
  nodes :: "node_ptr \<Rightarrow> node_t"
  static_priority :: int
  trace :: "event list"

definition emit :: "event \<Rightarrow> world \<Rightarrow> world" where
  "emit e w = w\<lparr>trace := trace w @ [e]\<rparr>"

definition MAX_SEQNO :: nat where
  "MAX_SEQNO = 1073741824"

text \<open>The value an integer has once it is stored in a \<^verbatim>\<open>length_t\<close>.\<close>

definition to_length_t :: "int \<Rightarrow> length_t" where
  "to_length_t x = (x + 32768) mod 65536 - 32768"

text \<open>The success codes of zlib and LZO.\<close>

definition Z_OK :: int where
  "Z_OK = 0"

definition LZO_E_OK :: int where
  "LZO_E_OK = 0"

subsection \<open>Compression\<close>

text \<open>
  \<^verbatim>\<open>compress_packet\<close> and \<^verbatim>\<open>uncompress_packet\<close> return the destination buffer and the
  \<^verbatim>\<open>length_t\<close> result; \<open>-1\<close> is the failure indicator. The length a compressor stored
  (\<^verbatim>\<open>lzo_uint\<close>, \<^verbatim>\<open>unsigned long\<close>) is narrowed by the \<^verbatim>\<open>return\<close>.
\<close>

definition compress_packet :: "env \<Rightarrow> byte list \<Rightarrow> length_t \<Rightarrow> int \<Rightarrow> byte list \<times> length_t" where
  "compress_packet env source l level =
     (if level = 10 then
        (case lzo1x_1_compress env source l of (rc, lzolen, dest) \<Rightarrow>
           (dest, to_length_t (int lzolen)))
      else if level < 10 then
        (case compress2 env source l level of (rc, destlen, dest) \<Rightarrow>
           if rc = Z_OK then (dest, to_length_t (int destlen)) else (dest, - 1))
      else
        (case lzo1x_999_compress env source l of (rc, lzolen, dest) \<Rightarrow>
           (dest, to_length_t (int lzolen))))"

definition uncompress_packet :: "env \<Rightarrow> byte list \<Rightarrow> length_t \<Rightarrow> int \<Rightarrow> byte list \<times> length_t" where
  "uncompress_packet env source l level =
     (if level > 9 then
        (case lzo1x_decompress_safe env source l of (rc, lzolen, dest) \<Rightarrow>
           if rc = LZO_E_OK then (dest, to_length_t (int lzolen)) else (dest, - 1))
      else
        (case uncompress env source l of (rc, destlen, dest) \<Rightarrow>
           if rc = Z_OK then (dest, to_length_t (int destlen)) else (dest, - 1)))"

subsection \<open>Receiving over TCP\<close>

definition receive_packet :: "world \<Rightarrow> node_ptr \<Rightarrow> vpn_packet_t \<Rightarrow> world" where
  "receive_packet w n packet = emit (Route n packet) w"

text \<open>
  \<^verbatim>\<open>receive_tcppacket\<close>: the local \<^verbatim>\<open>outpkt\<close> gets its length (narrowed), its priority
  and the first \<open>len\<close> bytes of its data; its slot and the rest of its buffer stay
  uninitialised. \<^verbatim>\<open>memcpy\<close> takes \<open>len\<close> as a \<^verbatim>\<open>size_t\<close>: with a negative \<open>len\<close>, with
  one above the \<^verbatim>\<open>MAXSIZE\<close> bytes of \<^verbatim>\<open>outpkt.data\<close> or with one above the size of the
  buffer it reads or writes outside its buffers, and what the code does is undefined:
  \<open>None\<close>.
\<close>

definition receive_tcppacket :: "env \<Rightarrow> world \<Rightarrow> connection_t \<Rightarrow> byte list \<Rightarrow> int \<Rightarrow> world option" where
  "receive_tcppacket env w c buffer l =
     (if l < 0 \<or> int (MAXSIZE env) < l \<or> int (length buffer) < l then None
      else
        (let outpkt = uninit env;
             outpkt = outpkt\<lparr>len := to_length_t l\<rparr>;
             outpkt = (if c_options c AND OPTION_TCPONLY env \<noteq> 0
                       then outpkt\<lparr>priority := 0\<rparr>
                       else outpkt\<lparr>priority := - 1\<rparr>);
             outpkt = outpkt\<lparr>data := take (nat l) buffer @ drop (nat l) (data outpkt)\<rparr>
         in Some (receive_packet w (c_node c) outpkt)))"

subsection \<open>Sending over UDP\<close>

text \<open>
  \<^verbatim>\<open>htonl\<close> and \<^verbatim>\<open>ntohl\<close> on a little-endian host: the four bytes of the slot are
  reversed (on a big-endian host both are the identity).
\<close>

definition htonl :: "uint32_t \<Rightarrow> uint32_t" where
  "htonl x = push_bit 24 (x AND 0xFF) OR push_bit 8 (x AND 0xFF00)
             OR drop_bit 8 (x AND 0xFF0000) OR drop_bit 24 x"

definition ntohl :: "uint32_t \<Rightarrow> uint32_t" where
  "ntohl x = htonl x"

text \<open>How a call of \<^verbatim>\<open>send_udppacket\<close> ended: which \<^verbatim>\<open>return\<close> it took.\<close>

datatype send_outcome =
    Tcp_no_key
  | Tcp_no_minmtu
  | Dropped_compress
  | Failed_encrypt
  | Udp sendto_result

text \<open>
  The socket loop: the first listening socket of the address family of the node, or
  socket 0 when there is none.
\<close>

definition find_sock :: "env \<Rightarrow> node_t \<Rightarrow> nat" where
  "find_sock env nd =
     (case find (\<lambda>s. sa_family (address nd) = ls_family (listen_socket env s))
                [0 ..< listen_sockets env] of
        Some s \<Rightarrow> s
      | None \<Rightarrow> 0)"

text \<open>
  \<^verbatim>\<open>send_udppacket\<close> works in the steps its comments name. \<open>inpkt\<close> points to the
  caller's packet until a compressor or a cipher has written into a scratch packet;
  \<open>alias\<close> says whether it still does.

  "Compress the packet": the packet \<open>inpkt\<close> points to afterwards, or \<open>None\<close> for the
  \<^verbatim>\<open>return\<close> after a compression error.
\<close>

definition compress_step :: "env \<Rightarrow> node_t \<Rightarrow> vpn_packet_t \<Rightarrow> (vpn_packet_t \<times> bool) option" where
  "compress_step env nd origpkt =
     (if outcompression nd \<noteq> 0 then
        (case compress_packet env (data origpkt) (len origpkt) (outcompression nd) of
           (dest, r) \<Rightarrow>
             if r < 0 then None
             else Some ((uninit env)\<lparr>data := dest, len := r\<rparr>, False))
      else Some (origpkt, True))"

text \<open>"Encrypt the packet": \<open>None\<close> for the \<^verbatim>\<open>goto end\<close> after an encryption error.\<close>

definition encrypt_step :: "env \<Rightarrow> node_t \<Rightarrow> vpn_packet_t \<Rightarrow> bool \<Rightarrow> (vpn_packet_t \<times> bool) option" where
  "encrypt_step env nd inpkt alias =
     (if cipher_active env (outcipher nd) then
        (case cipher_encrypt env (outcipher nd) (seqno inpkt) (data inpkt) (len inpkt) of
           None \<Rightarrow> None
         | Some (sq, d, outlen) \<Rightarrow>
             Some ((uninit env)\<lparr>seqno := sq, data := d, len := to_length_t (int outlen)\<rparr>, False))
      else Some (inpkt, alias))"

text \<open>"Add the message authentication code".\<close>

definition mac_step :: "env \<Rightarrow> node_t \<Rightarrow> vpn_packet_t \<Rightarrow> vpn_packet_t" where
  "mac_step env nd inpkt =
     (if digest_active env (outdigest nd) then
        inpkt\<lparr>data := digest_create env (outdigest nd) (seqno inpkt) (data inpkt) (len inpkt),
              len := to_length_t (len inpkt + int (digest_length env (outdigest nd)))\<rparr>
      else inpkt)"

text \<open>The reaction to \<^verbatim>\<open>EMSGSIZE\<close>.\<close>

definition emsgsize :: "length_t \<Rightarrow> node_t \<Rightarrow> node_t" where
  "emsgsize origlen nd =
     (let nd = (if maxmtu nd \<ge> origlen then nd\<lparr>maxmtu := origlen - 1\<rparr> else nd)
      in if mtu nd \<ge> origlen then nd\<lparr>mtu := origlen - 1\<rparr> else nd)"

text \<open>
  "Determine which socket we have to use" and "Send the packet": the priority of the
  socket is set where \<^verbatim>\<open>SOL_IP\<close> and \<^verbatim>\<open>IP_TOS\<close> are defined, then \<^verbatim>\<open>sendto\<close> is called
  once and its failure handled.
\<close>

definition transmit :: "env \<Rightarrow> world \<Rightarrow> node_ptr \<Rightarrow> vpn_packet_t \<Rightarrow> length_t \<Rightarrow> int \<Rightarrow> world \<times> sendto_result" where
  "transmit env w n inpkt origlen origpriority =
     (let nd = nodes w n;
          sock = find_sock env nd;
          ls = listen_socket env sock;
          w = (if have_ip_tos env \<and> priorityinheritance env
                  \<and> origpriority \<noteq> static_priority w \<and> ls_family ls = AF_INET env
               then emit (Setsockopt_tos (ls_udp ls) origpriority)
                      (w\<lparr>static_priority := origpriority\<rparr>)
               else w);
          r = sendto env (ls_udp ls) (seqno inpkt) (data inpkt) (len inpkt) (address nd);
          w = emit (Sendto (ls_udp ls) (seqno inpkt) (data inpkt) (len inpkt) (address nd)) w;
          w = (if r = Sendto_EMSGSIZE
               then w\<lparr>nodes := (nodes w)(n := emsgsize origlen nd)\<rparr>
               else w)
      in (w, r))"

text \<open>
  \<^verbatim>\<open>send_udppacket\<close> returns the store, the caller's packet as the call leaves it, and
  the way it ended. \<open>orig\<close> is the caller's packet as written through \<open>inpkt\<close> so far.
\<close>

definition send_udppacket :: "env \<Rightarrow> world \<Rightarrow> node_ptr \<Rightarrow> vpn_packet_t \<Rightarrow> world \<times> vpn_packet_t \<times> send_outcome" where
  "send_udppacket env w n origpkt =
     (let nd = nodes w n in
      if \<not> validkey nd then
        (let w = (if \<not> waitingforkey nd then emit (Send_req_key n) w else w);
             w = w\<lparr>nodes := (nodes w)(n := nd\<lparr>waitingforkey := True\<rparr>)\<rparr>;
             w = emit (Send_tcppacket (connection (nodes w (nexthop nd))) origpkt) w
         in (w, origpkt, Tcp_no_key))
      else if options nd AND OPTION_PMTU_DISCOVERY env \<noteq> 0 \<and> minmtu nd = 0
              \<and> (data origpkt ! 12 OR data origpkt ! 13) \<noteq> 0 then
        (emit (Send_tcppacket (connection (nodes w (nexthop nd))) origpkt) w, origpkt, Tcp_no_minmtu)
      else
        (let origlen = len origpkt;
             origpriority = priority origpkt
         in case compress_step env nd origpkt of
              None \<Rightarrow> (w, origpkt, Dropped_compress)
            | Some (inpkt, alias) \<Rightarrow>
               (let nd = nd\<lparr>sent_seqno := sent_seqno nd + 1\<rparr>;
                    w = w\<lparr>nodes := (nodes w)(n := nd)\<rparr>;
                    inpkt = inpkt\<lparr>seqno := htonl (sent_seqno nd)\<rparr>;
                    inpkt = inpkt\<lparr>len := len inpkt + 4\<rparr>;
                    orig = (if alias then inpkt else origpkt)
                in case encrypt_step env nd inpkt alias of
                     None \<Rightarrow> (w, orig\<lparr>len := origlen\<rparr>, Failed_encrypt)
                   | Some (inpkt, alias) \<Rightarrow>
                      (let inpkt = mac_step env nd inpkt;
                           orig = (if alias then inpkt else orig)
                       in case transmit env w n inpkt origlen origpriority of
                            (w, r) \<Rightarrow> (w, orig\<lparr>len := origlen\<rparr>, Udp r)))))"

text \<open>\<^verbatim>\<open>send_packet\<close> returns the store and the caller's packet.\<close>

definition send_packet :: "env \<Rightarrow> world \<Rightarrow> node_ptr \<Rightarrow> vpn_packet_t \<Rightarrow> world \<times> vpn_packet_t" where
  "send_packet env w n packet =
     (if n = myself env then
        (let packet = (if overwrite_mac env
                       then packet\<lparr>data := take 6 (mymac env) @ drop 6 (data packet)\<rparr>
                       else packet)
         in (emit (Write_packet packet) w, packet))
      else if \<not> reachable (nodes w n) then (w, packet)
      else
        (let v = (if priority packet = - 1 \<or> via (nodes w n) = myself env
                  then nexthop (nodes w n) else via (nodes w n))
         in if priority packet = - 1
               \<or> (options (nodes w (myself env)) OR options (nodes w v)) AND OPTION_TCPONLY env \<noteq> 0 then
              (let c = connection (nodes w v);
                   w = emit (Send_tcppacket c packet) w
               in if \<not> send_tcppacket env c packet
                  then (emit (Terminate_connection c) w, packet)
                  else (w, packet))
            else (case send_udppacket env w v packet of (w, packet, outcome) \<Rightarrow> (w, packet))))"

subsection \<open>MTU probes\<close>

definition mtu_probe_h :: "env \<Rightarrow> world \<Rightarrow> node_ptr \<Rightarrow> vpn_packet_t \<Rightarrow> length_t \<Rightarrow> world" where
  "mtu_probe_h env w n packet l =
     (if data packet ! 0 = 0 then
        fst (send_packet env w n (packet\<lparr>data := (data packet)[0 := 1]\<rparr>))
      else if minmtu (nodes w n) < l then
        w\<lparr>nodes := (nodes w)(n := (nodes w n)\<lparr>minmtu := l\<rparr>)\<rparr>
      else w)"

text \<open>
  One probe of \<^verbatim>\<open>send_mtu_probe_handler\<close>, in iteration \<open>i\<close> of its loop: the local
  \<^verbatim>\<open>packet\<close>, as the iteration before left it, is filled and sent. The divisor of \<^verbatim>\<open>%\<close>
  is positive where it is computed, and \<^verbatim>\<open>random()\<close> is not negative.
\<close>

definition send_probe :: "env \<Rightarrow> node_ptr \<Rightarrow> nat \<Rightarrow> world \<Rightarrow> vpn_packet_t \<Rightarrow> world \<times> vpn_packet_t" where
  "send_probe env n i w packet =
     (let nd = nodes w n;
          l = minmtu nd + 1 + random env i mod (maxmtu nd - minmtu nd);
          l = (if l < 64 then 64 else l);
          packet = packet\<lparr>data := replicate 14 0 @ randomize env i (nat (l - 14))
                                    @ drop (14 + nat (l - 14)) (data packet)\<rparr>;
          packet = packet\<lparr>len := l, priority := 0\<rparr>
      in case send_udppacket env w n packet of (w, packet, outcome) \<Rightarrow> (w, packet))"

text \<open>
  The probe loop, with \<open>Suc k\<close> of its three iterations left (\<open>i = 2 - k\<close>). The result
  says whether the loop ran to its end, so that the timer is armed again.
\<close>

fun probe_loop :: "env \<Rightarrow> node_ptr \<Rightarrow> nat \<Rightarrow> world \<Rightarrow> vpn_packet_t \<Rightarrow> world \<times> bool" where
  "probe_loop env n 0 w packet = (w, True)"
| "probe_loop env n (Suc k) w packet =
     (if mtuprobes (nodes w n) \<ge> 30 \<or> minmtu (nodes w n) \<ge> maxmtu (nodes w n) then
        (w\<lparr>nodes := (nodes w)(n := (nodes w n)\<lparr>mtu := minmtu (nodes w n)\<rparr>)\<rparr>, False)
      else
        probe_loop env n k (fst (send_probe env n (2 - k) w packet))
                           (snd (send_probe env n (2 - k) w packet)))"

definition send_mtu_probe_handler :: "env \<Rightarrow> world \<Rightarrow> node_ptr \<Rightarrow> world" where
  "send_mtu_probe_handler env w n =
     (let nd = (nodes w n)\<lparr>mtuprobes := mtuprobes (nodes w n) + 1\<rparr>;
          w = w\<lparr>nodes := (nodes w)(n := nd)\<rparr>
      in if mtuprobes nd \<ge> 10 \<and> minmtu nd = 0 then w
         else (case probe_loop env n 3 w (uninit env) of
                 (w, finished) \<Rightarrow> if finished then emit (Event_add n) w else w))"

subsection \<open>Receiving over UDP\<close>

definition try_mac :: "env \<Rightarrow> node_t \<Rightarrow> vpn_packet_t \<Rightarrow> bool" where
  "try_mac env nd inpkt =
     (if \<not> digest_active env (indigest nd) \<or> inmaclength nd = 0
         \<or> (0 \<le> len inpkt \<and> len inpkt < 4 + int (inmaclength nd))
      then False
      else digest_verify env (indigest nd) (seqno inpkt) (data inpkt) (len inpkt))"

text \<open>
  The late bitmap \<^verbatim>\<open>n->late\<close>: sequence number \<open>i\<close> has bit \<open>i % 8\<close> of byte
  \<open>(i / 8) % sizeof n->late\<close>.
\<close>

definition late_test :: "byte list \<Rightarrow> nat \<Rightarrow> bool" where
  "late_test l i = (l ! ((i div 8) mod length l) AND push_bit (i mod 8) 1 \<noteq> 0)"

definition late_clear :: "byte list \<Rightarrow> nat \<Rightarrow> byte list" where
  "late_clear l i =
     l[(i div 8) mod length l := l ! ((i div 8) mod length l) AND NOT (push_bit (i mod 8) 1)]"

text \<open>
  The marking loop has an \<^verbatim>\<open>int\<close> counter: \<^verbatim>\<open>n->late[(i / 8) % sizeof n->late] |= 1 << i % 8\<close>.
  The division and the remainder of C truncate towards zero, and the quotient becomes
  a \<^verbatim>\<open>size_t\<close> before the \<^verbatim>\<open>%\<close>. From \<open>2^31\<close> on the counter is negative: the byte is
  then another one than for the sequence number, and the shift count is negative
  unless \<open>i\<close> is a multiple of 8. C leaves a shift by a negative count undefined; the
  shift instructions of x86 and ARM give a value without any of the low eight bits, and
  that is taken here: the byte stays as it is.
\<close>

definition late_mark :: "byte list \<Rightarrow> int \<Rightarrow> byte list" where
  "late_mark l i =
     (let q = (if 0 \<le> i then i div 8 else - ((- i) div 8));
          r = (if 0 \<le> i then i mod 8 else - ((- i) mod 8));
          k = nat (q mod 2 ^ 64) mod length l
      in l[k := l ! k OR (if 0 \<le> r then push_bit (nat r) 1 else 0)])"

text \<open>
  The sequence number check of \<^verbatim>\<open>receive_udppacket\<close>, from the comparison with
  \<^verbatim>\<open>received_seqno + 1\<close> to the update of \<^verbatim>\<open>received_seqno\<close>: \<open>None\<close> is the
  \<^verbatim>\<open>return\<close> of a late or replayed packet. The sum \<^verbatim>\<open>received_seqno + 1\<close> is a 32-bit
  sum. The marking loop compares its counter as a \<^verbatim>\<open>uint32_t\<close>, so it runs from
  \<^verbatim>\<open>received_seqno + 1\<close> up to the sequence number; the counter itself is the signed
  reading of these values.
\<close>

definition check_seqno :: "node_t \<Rightarrow> uint32_t \<Rightarrow> node_t option" where
  "check_seqno nd sq =
     (let s = unat sq;
          r = unat (received_seqno nd);
          w = length (late nd) * 8
      in case (if sq \<noteq> received_seqno nd + 1 then
                 (if s \<ge> r + w then
                    Some (nd\<lparr>late := replicate (length (late nd)) 0\<rparr>)
                  else if s \<le> r then
                    (if (r \<ge> w \<and> s \<le> r - w) \<or> \<not> late_test (late nd) s then None
                     else Some nd)
                  else Some (nd\<lparr>late := fold (\<lambda>u l. late_mark l (sint (word_of_nat u :: uint32_t)))
                                            [r + 1 ..< s] (late nd)\<rparr>))
               else Some nd) of
           None \<Rightarrow> None
         | Some nd \<Rightarrow>
            (let nd = nd\<lparr>late := late_clear (late nd) s\<rparr>
             in Some (if s > unat (received_seqno nd) then nd\<lparr>received_seqno := sq\<rparr> else nd)))"

text \<open>
  \<^verbatim>\<open>receive_udppacket\<close>, step by step. "Decrypt the packet": the packet \<open>inpkt\<close> points
  to afterwards, or \<open>None\<close> for the \<^verbatim>\<open>return\<close> after a decryption error.
\<close>

definition decrypt_step :: "env \<Rightarrow> node_t \<Rightarrow> vpn_packet_t \<Rightarrow> vpn_packet_t option" where
  "decrypt_step env nd inpkt =
     (if cipher_active env (incipher nd) then
        (case cipher_decrypt env (incipher nd) (seqno inpkt) (data inpkt) (len inpkt) of
           None \<Rightarrow> None
         | Some (sq, d, outlen) \<Rightarrow>
             Some ((uninit env)\<lparr>seqno := sq, data := d, len := to_length_t (int outlen)\<rparr>))
      else Some inpkt)"

text \<open>
  "Decompress the packet": the packet \<open>inpkt\<close> points to afterwards and the length
  \<open>origlen\<close> that goes to \<^verbatim>\<open>mtu_probe_h\<close>, or \<open>None\<close> for the \<^verbatim>\<open>return\<close> after a
  decompression error.
\<close>

definition uncompress_step :: "env \<Rightarrow> node_t \<Rightarrow> vpn_packet_t \<Rightarrow> (vpn_packet_t \<times> length_t) option" where
  "uncompress_step env nd inpkt =
     (let origlen = len inpkt
      in if incompression nd \<noteq> 0 then
           (case uncompress_packet env (data inpkt) (len inpkt) (incompression nd) of
              (dest, r) \<Rightarrow>
                if r < 0 then None
                else Some ((uninit env)\<lparr>data := dest, len := r\<rparr>,
                           origlen - (MTU env div 64 + 20)))
         else Some (inpkt, origlen))"

definition receive_udppacket :: "env \<Rightarrow> world \<Rightarrow> node_ptr \<Rightarrow> vpn_packet_t \<Rightarrow> world" where
  "receive_udppacket env w n inpkt =
     (let nd = nodes w n in
      if \<not> cipher_active env (incipher nd) then w
      else if 0 \<le> len inpkt \<and> len inpkt < 4 + int (digest_length env (indigest nd)) then w
      else if digest_active env (indigest nd)
              \<and> \<not> digest_verify env (indigest nd) (seqno inpkt) (data inpkt) (len inpkt) then w
      else
        case decrypt_step env nd inpkt of
          None \<Rightarrow> w
        | Some inpkt \<Rightarrow>
           (let inpkt = inpkt\<lparr>len := len inpkt - 4\<rparr>;
                inpkt = inpkt\<lparr>seqno := ntohl (seqno inpkt)\<rparr>
            in case check_seqno nd (seqno inpkt) of
                 None \<Rightarrow> w
               | Some nd \<Rightarrow>
                  (let w = w\<lparr>nodes := (nodes w)(n := nd)\<rparr>;
                       w = (if unat (received_seqno nd) > MAX_SEQNO then emit Regenerate_key w else w)
                   in case uncompress_step env nd inpkt of
                        None \<Rightarrow> w
                      | Some (inpkt, origlen) \<Rightarrow>
                         (let inpkt = inpkt\<lparr>priority := 0\<rparr>
                          in if data inpkt ! 12 = 0 \<and> data inpkt ! 13 = 0
                             then mtu_probe_h env w n inpkt origlen
                             else receive_packet w n inpkt))))"

subsection \<open>Finding the sender of a datagram\<close>

text \<open>
  The loop of \<^verbatim>\<open>try_harder\<close> over the edges that are left, with the candidate \<open>n\<close>
  found so far.
\<close>

fun try_harder_loop :: "env \<Rightarrow> world \<Rightarrow> sockaddr_t \<Rightarrow> vpn_packet_t \<Rightarrow> node_ptr option \<Rightarrow> edge_t list \<Rightarrow> node_ptr option" where
  "try_harder_loop env w sa pkt n [] = n"
| "try_harder_loop env w sa pkt n (e # es) =
     (if sockaddrcmp_noport env sa (e_address e) \<noteq> 0 then try_harder_loop env w sa pkt n es
      else
        (let n = (if n = None then Some (e_to e) else n)
         in if \<not> try_mac env (nodes w (e_to e)) pkt then try_harder_loop env w sa pkt n es
            else Some (e_to e)))"

definition try_harder :: "env \<Rightarrow> world \<Rightarrow> sockaddr_t \<Rightarrow> vpn_packet_t \<Rightarrow> node_ptr option" where
  "try_harder env w sa pkt = try_harder_loop env w sa pkt None (edge_weight_tree env)"

text \<open>
  Modelled from the spec: \<^verbatim>\<open>update_node_udp\<close> is defined outside this file; by the
  specification it updates the address of the peer to the observed one.
\<close>

definition update_node_udp :: "world \<Rightarrow> node_ptr \<Rightarrow> sockaddr_t \<Rightarrow> world" where
  "update_node_udp w n sa =
     emit (Update_node_udp n sa) (w\<lparr>nodes := (nodes w)(n := (nodes w n)\<lparr>address := sa\<rparr>)\<rparr>)"

text \<open>
  \<^verbatim>\<open>handle_incoming_vpn_data\<close>, from the datagram \<^verbatim>\<open>recvfrom\<close> stored (its result in
  \<open>len\<close>) and the source address it reported.
\<close>

definition handle_incoming_vpn_data :: "env \<Rightarrow> world \<Rightarrow> vpn_packet_t \<Rightarrow> sockaddr_t \<Rightarrow> world" where
  "handle_incoming_vpn_data env w pkt sa0 =
     (if len pkt < 0 then w
      else
        (let sa = sockaddrunmap env sa0
         in case lookup_node_udp env sa of
              Some n \<Rightarrow> receive_udppacket env w n pkt
            | None \<Rightarrow>
               (case try_harder env w sa pkt of
                  Some n \<Rightarrow> receive_udppacket env (update_node_udp w n sa) n pkt
                | None \<Rightarrow> w)))"

subsection \<open>Sequences of operations\<close>

text \<open>
  What happens to the store over time: datagrams are received, frames are sent over
  UDP, the probe timer fires. Each operation comes with the environment it runs in
  (the outcome of \<^verbatim>\<open>sendto\<close>, for one, changes from call to call).
\<close>

datatype op =
    Udp_recv env node_ptr vpn_packet_t
  | Udp_send env node_ptr vpn_packet_t
  | Probe_timer env node_ptr

fun is_probe_timer :: "op \<Rightarrow> bool" where
  "is_probe_timer (Probe_timer env n) = True"
| "is_probe_timer other = False"

fun step :: "world \<Rightarrow> op \<Rightarrow> world" where
  "step w (Udp_recv env n pkt) = receive_udppacket env w n pkt"
| "step w (Udp_send env n pkt) = fst (send_udppacket env w n pkt)"
| "step w (Probe_timer env n) = send_mtu_probe_handler env w n"

fun run :: "world \<Rightarrow> op list \<Rightarrow> world" where
  "run w [] = w"
| "run w (x # xs) = run (step w x) xs"

subsection \<open>The late bitmap as a sequence of bits\<close>

text \<open>
  The words of the specification speak of the bit at a position \<open>p\<close> of the late bitmap,
  a sequence of \<open>W = 8 * B\<close> bits: bit \<open>p\<close> is bit \<open>p mod 8\<close> of byte \<open>p div 8\<close>.
\<close>

definition bitmap_bit :: "byte list \<Rightarrow> nat \<Rightarrow> bool" where
  "bitmap_bit l p = bit (l ! (p div 8)) (p mod 8)"

definition bitmap_clear :: "byte list \<Rightarrow> nat \<Rightarrow> byte list" where
  "bitmap_clear l p = l[p div 8 := unset_bit (p mod 8) (l ! (p div 8))]"

subsection \<open>A concrete environment, node and store\<close>

text \<open>
  An environment whose ciphers and compressors copy their input and whose digests accept
  everything, a node with a 16-byte late bitmap, and a store of such nodes. The
  theorems below are instantiated on them.
\<close>

definition example_env :: env where
  "example_env =
     \<lparr>OPTION_TCPONLY = 2, OPTION_PMTU_DISCOVERY = 4, MTU = 1518, MAXSIZE = 1661, AF_INET = 2,
      have_ip_tos = True, priorityinheritance = False, overwrite_mac = False,
      mymac = [0, 0, 0, 0, 0, 0], myself = 0, edge_weight_tree = [],
      listen_sockets = 1, listen_socket = (\<lambda>s. \<lparr>ls_family = 2, ls_udp = 5\<rparr>),
      uninit = \<lparr>len = 0, priority = 0, seqno = 0, data = []\<rparr>,
      cipher_active = (\<lambda>c. c \<noteq> 0),
      cipher_encrypt = (\<lambda>c sq d l. Some (sq, d, nat l)),
      cipher_decrypt = (\<lambda>c sq d l. Some (sq, d, nat l)),
      digest_active = (\<lambda>d. d \<noteq> 0),
      digest_length = (\<lambda>d. 0),
      digest_verify = (\<lambda>d sq dt l. True),
      digest_create = (\<lambda>d sq dt l. dt),
      lzo1x_1_compress = (\<lambda>src l. (0, nat l, src)),
      lzo1x_999_compress = (\<lambda>src l. (0, nat l, src)),
      compress2 = (\<lambda>src l level. (0, nat l, src)),
      lzo1x_decompress_safe = (\<lambda>src l. (0, nat l, src)),
      uncompress = (\<lambda>src l. (0, nat l, src)),
      sendto = (\<lambda>fd sq d l sa. Sendto_ok),
      send_tcppacket = (\<lambda>c p. True),
      sockaddrcmp_noport = (\<lambda>a b. if sa_family a = sa_family b \<and> sa_host a = sa_host b then 0 else 1),
      sockaddrunmap = (\<lambda>a. a),
      lookup_node_udp = (\<lambda>a. None),
      random = (\<lambda>i. 0),
      randomize = (\<lambda>i k. replicate k 0)\<rparr>"

definition example_node :: node_t where
  "example_node =
     \<lparr>validkey = True, waitingforkey = False, reachable = True, options = 0,
      address = \<lparr>sa_family = 2, sa_host = [10, 0, 0, 1], sa_port = 655\<rparr>,
      incipher = 1, outcipher = 1, indigest = 1, outdigest = 1, inmaclength = 4,
      incompression = 0, outcompression = 0, sent_seqno = 0, received_seqno = 0,
      late = replicate 16 0, mtu = 1500, minmtu = 0, maxmtu = 1500, mtuprobes = 0,
      nexthop = 1, via = 1, connection = Some 7\<rparr>"

definition example_world :: world where
  "example_world = \<lparr>nodes = (\<lambda>n. example_node), static_priority = 0, trace = []\<rparr>"

section \<open>Properties\<close>

subsection \<open>Frames received over TCP\<close>

lemma to_length_t_id:
  assumes "- 32768 \<le> x" and "x \<le> 32767"
  shows "to_length_t x = x"
  using assms by (simp add: to_length_t_def)

text \<open>
  C2 (as amended). For a length from 0 to the capacity \<^verbatim>\<open>MAXSIZE\<close> of a packet (which
  fits a \<^verbatim>\<open>length_t\<close>) and a buffer that holds that many bytes, \<^verbatim>\<open>receive_tcppacket\<close>
  hands exactly one frame to the routing collaborator and changes nothing else. The
  frame has the length given, its first \<open>len\<close> bytes are those of the buffer, and its
  priority is 0 when the connection has the TCP-only option and -1 when it has not. No
  cipher, digest or compressor takes part: the result is the same in every environment
  with the same option bit, capacity and uninitialised memory.
\<close>

theorem receive_tcppacket_frame:
  assumes "0 \<le> l" and "l \<le> int (MAXSIZE env)" and "l \<le> int (length buffer)"
    and "MAXSIZE env \<le> 32767"
  shows "(\<exists>p. receive_tcppacket env w c buffer l
                = Some (w\<lparr>trace := trace w @ [Route (c_node c) p]\<rparr>)
            \<and> len p = l
            \<and> priority p = (if c_options c AND OPTION_TCPONLY env \<noteq> 0 then 0 else - 1)
            \<and> take (nat l) (data p) = take (nat l) buffer)
       \<and> (\<forall>env'. uninit env' = uninit env \<and> OPTION_TCPONLY env' = OPTION_TCPONLY env
                  \<and> MAXSIZE env' = MAXSIZE env \<longrightarrow>
             receive_tcppacket env' w c buffer l = receive_tcppacket env w c buffer l)"
proof
  define p where "p = (uninit env)\<lparr>len := l,
       priority := (if c_options c AND OPTION_TCPONLY env \<noteq> 0 then 0 else - 1),
       data := take (nat l) buffer @ drop (nat l) (data (uninit env))\<rparr>"
  have n: "to_length_t l = l"
    using assms by (intro to_length_t_id) simp_all
  have g: "\<not> (l < 0 \<or> int (MAXSIZE env) < l \<or> int (length buffer) < l)"
    using assms by simp
  have r: "receive_tcppacket env w c buffer l = Some (w\<lparr>trace := trace w @ [Route (c_node c) p]\<rparr>)"
    unfolding receive_tcppacket_def using g
    by (simp add: n receive_packet_def Let_def emit_def p_def)
  have "length (take (nat l) buffer) = nat l"
    using assms by simp
  then have d: "take (nat l) (data p) = take (nat l) buffer"
    by (simp add: p_def)
  have "len p = l" and "priority p = (if c_options c AND OPTION_TCPONLY env \<noteq> 0 then 0 else - 1)"
    by (simp_all add: p_def)
  with r d show "\<exists>p. receive_tcppacket env w c buffer l
                = Some (w\<lparr>trace := trace w @ [Route (c_node c) p]\<rparr>)
            \<and> len p = l
            \<and> priority p = (if c_options c AND OPTION_TCPONLY env \<noteq> 0 then 0 else - 1)
            \<and> take (nat l) (data p) = take (nat l) buffer"
    by blast
next
  show "\<forall>env'. uninit env' = uninit env \<and> OPTION_TCPONLY env' = OPTION_TCPONLY env
                  \<and> MAXSIZE env' = MAXSIZE env \<longrightarrow>
             receive_tcppacket env' w c buffer l = receive_tcppacket env w c buffer l"
    by (simp add: receive_tcppacket_def Let_def)
qed

theorem receive_tcppacket_frame_witness:
  "(0 :: int) \<le> 3 \<and> (3 :: int) \<le> int (MAXSIZE example_env)
   \<and> (3 :: int) \<le> int (length [1, 2, 3 :: byte])
   \<and> MAXSIZE example_env \<le> 32767
   \<and> (\<exists>p. receive_tcppacket example_env example_world \<lparr>c_options = 0, c_node = 1\<rparr> [1, 2, 3] 3
             = Some (example_world\<lparr>trace := trace example_world @ [Route 1 p]\<rparr>)
          \<and> len p = 3 \<and> priority p = - 1 \<and> take 3 (data p) = [1, 2, 3])
   \<and> uninit (example_env\<lparr>cipher_decrypt := (\<lambda>c sq d l. None), digest_verify := (\<lambda>d sq dt l. False)\<rparr>) = uninit example_env
   \<and> OPTION_TCPONLY (example_env\<lparr>cipher_decrypt := (\<lambda>c sq d l. None), digest_verify := (\<lambda>d sq dt l. False)\<rparr>) = OPTION_TCPONLY example_env
   \<and> MAXSIZE (example_env\<lparr>cipher_decrypt := (\<lambda>c sq d l. None), digest_verify := (\<lambda>d sq dt l. False)\<rparr>) = MAXSIZE example_env
   \<and> receive_tcppacket (example_env\<lparr>cipher_decrypt := (\<lambda>c sq d l. None), digest_verify := (\<lambda>d sq dt l. False)\<rparr>) example_world \<lparr>c_options = 0, c_node = 1\<rparr> [1, 2, 3] 3
       = receive_tcppacket example_env example_world \<lparr>c_options = 0, c_node = 1\<rparr> [1, 2, 3] 3"
proof -
  have h: "(0 :: int) \<le> 3" "(3 :: int) \<le> int (MAXSIZE example_env)"
      "(3 :: int) \<le> int (length [1, 2, 3 :: byte])" "MAXSIZE example_env \<le> 32767"
    by (simp_all add: example_env_def)
  have u: "uninit (example_env\<lparr>cipher_decrypt := (\<lambda>c sq d l. None), digest_verify := (\<lambda>d sq dt l. False)\<rparr>) = uninit example_env"
    and o: "OPTION_TCPONLY (example_env\<lparr>cipher_decrypt := (\<lambda>c sq d l. None), digest_verify := (\<lambda>d sq dt l. False)\<rparr>) = OPTION_TCPONLY example_env"
    and m: "MAXSIZE (example_env\<lparr>cipher_decrypt := (\<lambda>c sq d l. None), digest_verify := (\<lambda>d sq dt l. False)\<rparr>) = MAXSIZE example_env"
    by simp_all
  note t = receive_tcppacket_frame[OF h, of example_world "\<lparr>c_options = 0, c_node = 1\<rparr>"]
  note t1 = t[THEN conjunct1]
  note t2 = t[THEN conjunct2, rule_format, of "(example_env\<lparr>cipher_decrypt := (\<lambda>c sq d l. None), digest_verify := (\<lambda>d sq dt l. False)\<rparr>)"]
  from t1 have e: "\<exists>p. receive_tcppacket example_env example_world \<lparr>c_options = 0, c_node = 1\<rparr> [1, 2, 3] 3
             = Some (example_world\<lparr>trace := trace example_world @ [Route 1 p]\<rparr>)
          \<and> len p = 3 \<and> priority p = - 1 \<and> take 3 (data p) = [1, 2, 3]"
    by simp
  from t2 u o m have "receive_tcppacket (example_env\<lparr>cipher_decrypt := (\<lambda>c sq d l. None), digest_verify := (\<lambda>d sq dt l. False)\<rparr>) example_world \<lparr>c_options = 0, c_node = 1\<rparr> [1, 2, 3] 3
       = receive_tcppacket example_env example_world \<lparr>c_options = 0, c_node = 1\<rparr> [1, 2, 3] 3"
    by blast
  with h e u o m show ?thesis
    by blast
qed

text \<open>
  The claim as it was stated (priority -1 for a TCP-only connection) fails: a connection
  with the TCP-only bit set gets priority 0.
\<close>

theorem receive_tcppacket_tcponly_priority_0:
  "(2 :: uint32_t) AND OPTION_TCPONLY example_env \<noteq> 0 \<and>
   receive_tcppacket example_env example_world \<lparr>c_options = 2, c_node = 1\<rparr> [1, 2, 3] 3
     = Some (example_world
              \<lparr>trace := [Route 1 \<lparr>len = 3, priority = 0, seqno = 0, data = [1, 2, 3]\<rparr>]\<rparr>)"
  by (simp add: receive_tcppacket_def receive_packet_def emit_def to_length_t_def
        example_env_def example_world_def)

subsection \<open>The replay window\<close>

lemma window_pos:
  fixes s B :: nat
  shows "(s mod (B * 8)) div 8 = (s div 8) mod B" and "(s mod (B * 8)) mod 8 = s mod 8"
proof -
  have e: "s mod (B * 8) = 8 * ((s div 8) mod B) + s mod 8"
    using mod_mult2_eq[of s 8 B] by (simp add: mult.commute)
  show "(s mod (B * 8)) div 8 = (s div 8) mod B"
    unfolding e by simp
  show "(s mod (B * 8)) mod 8 = s mod 8"
    unfolding e by simp
qed

lemma late_test_bitmap: "late_test l s = bitmap_bit l (s mod (length l * 8))"
  by (simp add: late_test_def bitmap_bit_def window_pos bit_iff_and_push_bit_not_eq_0)

lemma late_clear_bitmap: "late_clear l s = bitmap_clear l (s mod (length l * 8))"
  by (simp add: late_clear_def bitmap_clear_def window_pos unset_bit_eq_and_not)

lemma late_clear_zero: "late_clear (replicate B 0) s = replicate B 0"
  by (rule nth_equalityI) (auto simp: late_clear_def nth_list_update)

lemma unat_succ_32:
  fixes r :: uint32_t
  assumes "r \<noteq> - 1"
  shows "unat (r + 1) = unat r + 1"
proof -
  have "r + 1 \<noteq> 0"
    using assms by (metis add.commute add_eq_0_iff2 minus_equation_iff) 
  then show ?thesis
    using unatSuc[of r] by (simp add: add.commute)
qed

lemma check_seqno_old:
  assumes "sq \<noteq> received_seqno nd + 1"
    and "\<not> unat (received_seqno nd) + length (late nd) * 8 \<le> unat sq"
    and "unat sq \<le> unat (received_seqno nd)"
  shows "check_seqno nd sq =
     (if (length (late nd) * 8 \<le> unat (received_seqno nd)
            \<and> unat sq \<le> unat (received_seqno nd) - length (late nd) * 8)
         \<or> \<not> late_test (late nd) (unat sq)
      then None
      else Some (nd\<lparr>late := late_clear (late nd) (unat sq)\<rparr>))"
  unfolding check_seqno_def Let_def using assms by simp

text \<open>
  A datagram that the check turns down is dropped: \<^verbatim>\<open>receive_udppacket\<close> returns with
  the store as it was.
\<close>

lemma receive_udppacket_replay_drop:
  assumes "decrypt_step env (nodes w n) pkt = Some p"
    and "check_seqno (nodes w n) (ntohl (seqno p)) = None"
  shows "receive_udppacket env w n pkt = w"
  using assms by (simp add: receive_udppacket_def Let_def)


text \<open>
  C3 (as amended). For a packet with sequence number \<open>s \<le> R\<close>, where \<open>R\<close> is the
  \<^verbatim>\<open>received_seqno\<close> of the peer and \<open>R < 2^32 - 1\<close>, and with \<open>W\<close> eight times the size
  of the late bitmap: the check accepts the packet if and only if \<open>s > R - W\<close> (as
  integers) and bit \<open>s mod W\<close> of the bitmap is set; on acceptance that bit is cleared and
  nothing else changes; otherwise the packet is dropped.
\<close>

theorem replay_check_old_seqno:
  assumes B: "late nd \<noteq> []"
    and old: "unat sq \<le> unat (received_seqno nd)"
    and nowrap: "received_seqno nd \<noteq> - 1"
  shows "check_seqno nd sq =
     (if int (unat sq) > int (unat (received_seqno nd)) - int (length (late nd) * 8)
         \<and> bitmap_bit (late nd) (unat sq mod (length (late nd) * 8))
      then Some (nd\<lparr>late := bitmap_clear (late nd) (unat sq mod (length (late nd) * 8))\<rparr>)
      else None)"
proof -
  have ne: "sq \<noteq> received_seqno nd + 1"
  proof
    assume "sq = received_seqno nd + 1"
    then have "unat sq = unat (received_seqno nd) + 1"
      using unat_succ_32[OF nowrap] by simp
    with old show False by simp
  qed
  have w: "0 < length (late nd) * 8"
    using B by simp
  have n1: "\<not> unat (received_seqno nd) + length (late nd) * 8 \<le> unat sq"
    using w old by linarith
  have c: "(length (late nd) * 8 \<le> unat (received_seqno nd)
            \<and> unat sq \<le> unat (received_seqno nd) - length (late nd) * 8)
        \<longleftrightarrow> \<not> int (unat sq) > int (unat (received_seqno nd)) - int (length (late nd) * 8)"
    using old by linarith
  show ?thesis
    unfolding check_seqno_old[OF ne n1 old] c late_test_bitmap late_clear_bitmap
    by simp
qed

theorem replay_check_old_seqno_witness:
  "late (example_node\<lparr>received_seqno := 10, late := 32 # replicate 15 0\<rparr>) \<noteq> []
   \<and> unat (5 :: uint32_t) \<le> unat (received_seqno (example_node\<lparr>received_seqno := 10, late := 32 # replicate 15 0\<rparr>))
   \<and> received_seqno (example_node\<lparr>received_seqno := 10, late := 32 # replicate 15 0\<rparr>) \<noteq> - 1
   \<and> check_seqno (example_node\<lparr>received_seqno := 10, late := 32 # replicate 15 0\<rparr>) 5
       = Some (example_node\<lparr>received_seqno := 10, late := 0 # replicate 15 0\<rparr>)"
  using replay_check_old_seqno[of "example_node\<lparr>received_seqno := 10, late := 32 # replicate 15 0\<rparr>" 5]
  by (simp add: example_node_def bitmap_bit_def bitmap_clear_def)

text \<open>
  Without the bound on \<open>R\<close> the claim fails: at \<open>R = 2^32 - 1\<close> the 32-bit sum
  \<^verbatim>\<open>received_seqno + 1\<close> is 0, so a packet with sequence number 0 counts as the next
  one in order and is accepted, far outside the window and with its bit clear.
\<close>

theorem replay_check_wrapped_in_order:
  "unat (0 :: uint32_t) \<le> unat (received_seqno (example_node\<lparr>received_seqno := 4294967295\<rparr>))
   \<and> \<not> (int (unat (0 :: uint32_t))
          > int (unat (received_seqno (example_node\<lparr>received_seqno := 4294967295\<rparr>)))
            - int (length (late (example_node\<lparr>received_seqno := 4294967295\<rparr>)) * 8))
   \<and> \<not> late_test (late (example_node\<lparr>received_seqno := 4294967295\<rparr>)) (unat (0 :: uint32_t))
   \<and> check_seqno (example_node\<lparr>received_seqno := 4294967295\<rparr>) 0
       = Some (example_node\<lparr>received_seqno := 4294967295\<rparr>)"
  by (simp add: example_node_def check_seqno_def late_test_def late_clear_zero)

text \<open>
  C4. A packet with sequence number exactly \<open>R + W\<close> is accepted: the whole late bitmap
  is zero afterwards and \<^verbatim>\<open>received_seqno\<close> is the new sequence number. When
  \<open>R \<ge> W\<close>, a packet with sequence number \<open>R - W\<close> is rejected.
\<close>

theorem replay_window_edges:
  assumes B: "late nd \<noteq> []"
  shows "(unat sq = unat (received_seqno nd) + length (late nd) * 8 \<longrightarrow>
            check_seqno nd sq =
              Some (nd\<lparr>late := replicate (length (late nd)) 0, received_seqno := sq\<rparr>))
       \<and> (length (late nd) * 8 \<le> unat (received_seqno nd)
            \<and> unat sq = unat (received_seqno nd) - length (late nd) * 8 \<longrightarrow>
            check_seqno nd sq = None)"
proof (intro conjI impI)
  have w: "0 < length (late nd) * 8"
    using B by simp
  have ev: "even (length (late nd) * 8)"
    by simp
  {
    assume e: "unat sq = unat (received_seqno nd) + length (late nd) * 8"
    have lt: "unat (received_seqno nd) < unat sq"
      using e w by linarith
    have "received_seqno nd \<noteq> - 1"
    proof
      assume "received_seqno nd = - 1"
      then have "unat sq \<le> unat (received_seqno nd)"
        by (metis word_le_nat_alt word_order.extremum) 
      with lt show False by simp
    qed
    then have "unat (received_seqno nd + 1) = unat (received_seqno nd) + 1"
      by (rule unat_succ_32)
    then have ne: "sq \<noteq> received_seqno nd + 1"
      using e w by auto
    show "check_seqno nd sq =
              Some (nd\<lparr>late := replicate (length (late nd)) 0, received_seqno := sq\<rparr>)"
      using ne e lt by (simp add: check_seqno_def Let_def late_clear_zero)
  }
  {
    assume a: "length (late nd) * 8 \<le> unat (received_seqno nd)
            \<and> unat sq = unat (received_seqno nd) - length (late nd) * 8"
    have ne: "sq \<noteq> received_seqno nd + 1"
    proof
      assume eq: "sq = received_seqno nd + 1"
      show False
      proof (cases "received_seqno nd = - 1")
        case True
        then have "sq = 0" using eq by simp
        then have "unat (received_seqno nd) = length (late nd) * 8"
          using a by simp
        moreover have "odd (unat (received_seqno nd))"
          using True by (simp add: unsigned_minus_1_eq_mask mask_eq_exp_minus_1)
        ultimately show False using ev by simp
      next
        case False
        then have "unat sq = unat (received_seqno nd) + 1"
          using eq unat_succ_32 by simp
        with a show False by linarith
      qed
    qed
    have n1: "\<not> unat (received_seqno nd) + length (late nd) * 8 \<le> unat sq"
      using a w by linarith
    have n2: "unat sq \<le> unat (received_seqno nd)"
      using a by linarith
    have n3: "unat sq \<le> unat (received_seqno nd) - length (late nd) * 8"
      using a by linarith
    show "check_seqno nd sq = None"
      unfolding check_seqno_def Let_def using ne n1 n2 n3 a by simp
  }
qed


theorem replay_window_edges_witness:
  "late (example_node\<lparr>received_seqno := 200\<rparr>) \<noteq> []
   \<and> unat (328 :: uint32_t) = unat (received_seqno (example_node\<lparr>received_seqno := 200\<rparr>))
        + length (late (example_node\<lparr>received_seqno := 200\<rparr>)) * 8
   \<and> check_seqno (example_node\<lparr>received_seqno := 200\<rparr>) 328
       = Some (example_node\<lparr>received_seqno := 328\<rparr>)
   \<and> length (late (example_node\<lparr>received_seqno := 200\<rparr>)) * 8
        \<le> unat (received_seqno (example_node\<lparr>received_seqno := 200\<rparr>))
   \<and> unat (72 :: uint32_t) = unat (received_seqno (example_node\<lparr>received_seqno := 200\<rparr>))
        - length (late (example_node\<lparr>received_seqno := 200\<rparr>)) * 8
   \<and> check_seqno (example_node\<lparr>received_seqno := 200\<rparr>) 72 = None"
  using replay_window_edges[of "example_node\<lparr>received_seqno := 200\<rparr>" 328]
        replay_window_edges[of "example_node\<lparr>received_seqno := 200\<rparr>" 72]
  by (simp add: example_node_def)

subsection \<open>Sending without a valid key\<close>

text \<open>
  C6. When the peer has no valid key, \<^verbatim>\<open>send_udppacket\<close> calls \<^verbatim>\<open>send_req_key\<close> exactly
  when \<^verbatim>\<open>waitingforkey\<close> was not set, sets \<^verbatim>\<open>waitingforkey\<close>, hands the unchanged frame
  to \<^verbatim>\<open>send_tcppacket\<close> on the connection of the next hop, and returns: no \<^verbatim>\<open>sendto\<close>
  is made, and \<^verbatim>\<open>sent_seqno\<close> and the frame are as before.
\<close>

theorem send_udppacket_no_valid_key:
  assumes "\<not> validkey (nodes w n)"
  shows "send_udppacket env w n origpkt =
     (w\<lparr>nodes := (nodes w)(n := (nodes w n)\<lparr>waitingforkey := True\<rparr>),
        trace := trace w @ (if waitingforkey (nodes w n) then [] else [Send_req_key n])
                 @ [Send_tcppacket (connection (nodes w (nexthop (nodes w n)))) origpkt]\<rparr>,
      origpkt, Tcp_no_key)"
  using assms by (simp add: send_udppacket_def Let_def emit_def)

theorem send_udppacket_no_valid_key_witness:
  "\<not> validkey (nodes (example_world\<lparr>nodes := (\<lambda>n. example_node\<lparr>validkey := False\<rparr>)\<rparr>) 0)
   \<and> send_udppacket example_env (example_world\<lparr>nodes := (\<lambda>n. example_node\<lparr>validkey := False\<rparr>)\<rparr>) 0
        \<lparr>len = 3, priority = 0, seqno = 0, data = [1, 2, 3]\<rparr>
     = (\<lparr>nodes = (\<lambda>n. example_node\<lparr>validkey := False\<rparr>)
                   (0 := example_node\<lparr>validkey := False, waitingforkey := True\<rparr>),
         static_priority = 0,
         trace = [Send_req_key 0,
                  Send_tcppacket (Some 7) \<lparr>len = 3, priority = 0, seqno = 0, data = [1, 2, 3]\<rparr>]\<rparr>,
        \<lparr>len = 3, priority = 0, seqno = 0, data = [1, 2, 3]\<rparr>, Tcp_no_key)"
  using send_udppacket_no_valid_key[of "example_world\<lparr>nodes := (\<lambda>n. example_node\<lparr>validkey := False\<rparr>)\<rparr>" 0
          example_env "\<lparr>len = 3, priority = 0, seqno = 0, data = [1, 2, 3]\<rparr>"]
  by (simp add: example_world_def example_node_def)

subsection \<open>Compression on the way out\<close>

lemma lzo_levels_result:
  "compress_packet env source l 10
     = (snd (snd (lzo1x_1_compress env source l)),
        to_length_t (int (fst (snd (lzo1x_1_compress env source l)))))"
  "compress_packet env source l 11
     = (snd (snd (lzo1x_999_compress env source l)),
        to_length_t (int (fst (snd (lzo1x_999_compress env source l)))))"
  by (simp_all add: compress_packet_def split: prod.splits)

lemma compress_step_lzo:
  assumes "outcompression nd = 10 \<or> outcompression nd = 11"
    and "fst (snd (lzo1x_1_compress env (data pkt) (len pkt))) \<le> 32767"
    and "fst (snd (lzo1x_999_compress env (data pkt) (len pkt))) \<le> 32767"
  shows "compress_step env nd pkt \<noteq> None"
proof -
  have "0 \<le> snd (compress_packet env (data pkt) (len pkt) (outcompression nd))"
    using assms by (auto simp: lzo_levels_result to_length_t_id)
  then show ?thesis
    by (auto simp: compress_step_def split: prod.splits)
qed

lemma dropped_compress:
  assumes "snd (snd (send_udppacket env w n origpkt)) = Dropped_compress"
  shows "compress_step env (nodes w n) origpkt = None"
proof (cases "compress_step env (nodes w n) origpkt")
  case None
  then show ?thesis .
next
  case (Some c)
  obtain a al where c: "c = (a, al)"
    by (cases c)
  have "snd (snd (send_udppacket env w n origpkt)) \<noteq> Dropped_compress"
    unfolding send_udppacket_def Let_def Some c
    by (simp split: option.splits prod.splits)
  with assms show ?thesis
    by simp
qed

text \<open>
  C10 (as amended). At the levels 10 and 11 (the two LZO compressors) \<^verbatim>\<open>compress_packet\<close>
  returns the length the compressor stored, whatever its return code, when that length
  fits a \<^verbatim>\<open>length_t\<close> (it is at most 32767): the result is then not negative, so never
  the failure indicator, and \<^verbatim>\<open>send_udppacket\<close> does not take the drop after a
  compression error. With such stored lengths and a compression level in the range 0
  to 11, a call of \<^verbatim>\<open>send_udppacket\<close> that ends in that drop has a zlib level, 1 to 9.
\<close>

theorem compress_packet_lzo_never_fails:
  "(fst (snd (lzo1x_1_compress env source l)) \<le> 32767 \<longrightarrow>
      compress_packet env source l 10
        = (snd (snd (lzo1x_1_compress env source l)),
           int (fst (snd (lzo1x_1_compress env source l)))))
   \<and> (fst (snd (lzo1x_999_compress env source l)) \<le> 32767 \<longrightarrow>
      compress_packet env source l 11
        = (snd (snd (lzo1x_999_compress env source l)),
           int (fst (snd (lzo1x_999_compress env source l)))))
   \<and> (fst (snd (lzo1x_1_compress env (data origpkt) (len origpkt))) \<le> 32767
      \<and> fst (snd (lzo1x_999_compress env (data origpkt) (len origpkt))) \<le> 32767
      \<and> (outcompression (nodes w n) = 10 \<or> outcompression (nodes w n) = 11) \<longrightarrow>
      snd (snd (send_udppacket env w n origpkt)) \<noteq> Dropped_compress)
   \<and> (fst (snd (lzo1x_1_compress env (data origpkt) (len origpkt))) \<le> 32767
      \<and> fst (snd (lzo1x_999_compress env (data origpkt) (len origpkt))) \<le> 32767
      \<and> 0 \<le> outcompression (nodes w n) \<and> outcompression (nodes w n) \<le> 11
      \<and> snd (snd (send_udppacket env w n origpkt)) = Dropped_compress \<longrightarrow>
      1 \<le> outcompression (nodes w n) \<and> outcompression (nodes w n) \<le> 9)"
proof (intro conjI impI)
  assume "fst (snd (lzo1x_1_compress env source l)) \<le> 32767"
  then show "compress_packet env source l 10
        = (snd (snd (lzo1x_1_compress env source l)),
           int (fst (snd (lzo1x_1_compress env source l))))"
    by (simp add: lzo_levels_result to_length_t_id)
next
  assume "fst (snd (lzo1x_999_compress env source l)) \<le> 32767"
  then show "compress_packet env source l 11
        = (snd (snd (lzo1x_999_compress env source l)),
           int (fst (snd (lzo1x_999_compress env source l))))"
    by (simp add: lzo_levels_result to_length_t_id)
next
  assume a: "fst (snd (lzo1x_1_compress env (data origpkt) (len origpkt))) \<le> 32767
      \<and> fst (snd (lzo1x_999_compress env (data origpkt) (len origpkt))) \<le> 32767
      \<and> (outcompression (nodes w n) = 10 \<or> outcompression (nodes w n) = 11)"
  then have "compress_step env (nodes w n) origpkt \<noteq> None"
    by (intro compress_step_lzo) simp_all
  then show "snd (snd (send_udppacket env w n origpkt)) \<noteq> Dropped_compress"
    using dropped_compress[of env w n origpkt] by auto
next
  assume a: "fst (snd (lzo1x_1_compress env (data origpkt) (len origpkt))) \<le> 32767
      \<and> fst (snd (lzo1x_999_compress env (data origpkt) (len origpkt))) \<le> 32767
      \<and> 0 \<le> outcompression (nodes w n) \<and> outcompression (nodes w n) \<le> 11
      \<and> snd (snd (send_udppacket env w n origpkt)) = Dropped_compress"
  then have d: "compress_step env (nodes w n) origpkt = None"
    using dropped_compress[of env w n origpkt] by simp
  have n0: "outcompression (nodes w n) \<noteq> 0"
    using d by (auto simp: compress_step_def)
  have n10: "\<not> (outcompression (nodes w n) = 10 \<or> outcompression (nodes w n) = 11)"
    using d a compress_step_lzo[of "nodes w n" env origpkt] by auto
  from a n0 n10 show "1 \<le> outcompression (nodes w n)" and "outcompression (nodes w n) \<le> 9"
    by linarith+
qed

theorem compress_packet_lzo_never_fails_witness:
  "fst (snd (lzo1x_1_compress (example_env\<lparr>lzo1x_1_compress := (\<lambda>src l. (- 4, 3, src))\<rparr>) [1, 2, 3] 3)) \<le> 32767
   \<and> compress_packet (example_env\<lparr>lzo1x_1_compress := (\<lambda>src l. (- 4, 3, src))\<rparr>) [1, 2, 3] 3 10 = ([1, 2, 3], 3)
   \<and> fst (snd (lzo1x_999_compress (example_env\<lparr>lzo1x_1_compress := (\<lambda>src l. (- 4, 3, src))\<rparr>) [1, 2, 3] 3)) \<le> 32767
   \<and> compress_packet (example_env\<lparr>lzo1x_1_compress := (\<lambda>src l. (- 4, 3, src))\<rparr>) [1, 2, 3] 3 11 = ([1, 2, 3], 3)
   \<and> outcompression (nodes (example_world\<lparr>nodes := (\<lambda>n. example_node\<lparr>outcompression := 10\<rparr>)\<rparr>) 0) = 10
   \<and> snd (snd (send_udppacket (example_env\<lparr>lzo1x_1_compress := (\<lambda>src l. (- 4, 3, src))\<rparr>) (example_world\<lparr>nodes := (\<lambda>n. example_node\<lparr>outcompression := 10\<rparr>)\<rparr>) 0 \<lparr>len = 3, priority = 0, seqno = 0, data = [1, 2, 3]\<rparr>)) \<noteq> Dropped_compress
   \<and> fst (snd (lzo1x_1_compress (example_env\<lparr>compress2 := (\<lambda>src l level. (- 2, 0, []))\<rparr>) (data \<lparr>len = 3, priority = 0, seqno = 0, data = [1, 2, 3]\<rparr>) (len \<lparr>len = 3, priority = 0, seqno = 0, data = [1, 2, 3]\<rparr>))) \<le> 32767
   \<and> fst (snd (lzo1x_999_compress (example_env\<lparr>compress2 := (\<lambda>src l level. (- 2, 0, []))\<rparr>) (data \<lparr>len = 3, priority = 0, seqno = 0, data = [1, 2, 3]\<rparr>) (len \<lparr>len = 3, priority = 0, seqno = 0, data = [1, 2, 3]\<rparr>))) \<le> 32767
   \<and> 0 \<le> outcompression (nodes (example_world\<lparr>nodes := (\<lambda>n. example_node\<lparr>outcompression := 9\<rparr>)\<rparr>) 0) \<and> outcompression (nodes (example_world\<lparr>nodes := (\<lambda>n. example_node\<lparr>outcompression := 9\<rparr>)\<rparr>) 0) \<le> 11
   \<and> snd (snd (send_udppacket (example_env\<lparr>compress2 := (\<lambda>src l level. (- 2, 0, []))\<rparr>) (example_world\<lparr>nodes := (\<lambda>n. example_node\<lparr>outcompression := 9\<rparr>)\<rparr>) 0 \<lparr>len = 3, priority = 0, seqno = 0, data = [1, 2, 3]\<rparr>)) = Dropped_compress
   \<and> 1 \<le> outcompression (nodes (example_world\<lparr>nodes := (\<lambda>n. example_node\<lparr>outcompression := 9\<rparr>)\<rparr>) 0) \<and> outcompression (nodes (example_world\<lparr>nodes := (\<lambda>n. example_node\<lparr>outcompression := 9\<rparr>)\<rparr>) 0) \<le> 9"
proof -
  have b1: "fst (snd (lzo1x_1_compress (example_env\<lparr>lzo1x_1_compress := (\<lambda>src l. (- 4, 3, src))\<rparr>) [1, 2, 3] 3)) \<le> 32767"
    and b2: "fst (snd (lzo1x_999_compress (example_env\<lparr>lzo1x_1_compress := (\<lambda>src l. (- 4, 3, src))\<rparr>) [1, 2, 3] 3)) \<le> 32767"
    by (simp_all add: example_env_def)
  have b3: "fst (snd (lzo1x_1_compress (example_env\<lparr>lzo1x_1_compress := (\<lambda>src l. (- 4, 3, src))\<rparr>) (data \<lparr>len = 3, priority = 0, seqno = 0, data = [1, 2, 3]\<rparr>) (len \<lparr>len = 3, priority = 0, seqno = 0, data = [1, 2, 3]\<rparr>))) \<le> 32767"
    and b4: "fst (snd (lzo1x_999_compress (example_env\<lparr>lzo1x_1_compress := (\<lambda>src l. (- 4, 3, src))\<rparr>) (data \<lparr>len = 3, priority = 0, seqno = 0, data = [1, 2, 3]\<rparr>) (len \<lparr>len = 3, priority = 0, seqno = 0, data = [1, 2, 3]\<rparr>))) \<le> 32767"
    by (simp_all add: example_env_def)
  have l10: "outcompression (nodes (example_world\<lparr>nodes := (\<lambda>n. example_node\<lparr>outcompression := 10\<rparr>)\<rparr>) 0) = 10"
    by (simp add: example_world_def example_node_def)
  note t = compress_packet_lzo_never_fails[of "example_env\<lparr>lzo1x_1_compress := (\<lambda>src l. (- 4, 3, src))\<rparr>" "[1, 2, 3]" 3
      "\<lparr>len = 3, priority = 0, seqno = 0, data = [1, 2, 3]\<rparr>"
      "example_world\<lparr>nodes := (\<lambda>n. example_node\<lparr>outcompression := 10\<rparr>)\<rparr>" 0]
  from t[THEN conjunct1] b1 have c1: "compress_packet (example_env\<lparr>lzo1x_1_compress := (\<lambda>src l. (- 4, 3, src))\<rparr>) [1, 2, 3] 3 10 = ([1, 2, 3], 3)"
    by (simp add: example_env_def)
  from t[THEN conjunct2, THEN conjunct1] b2
  have c2: "compress_packet (example_env\<lparr>lzo1x_1_compress := (\<lambda>src l. (- 4, 3, src))\<rparr>) [1, 2, 3] 3 11 = ([1, 2, 3], 3)"
    by (simp add: example_env_def)
  from t[THEN conjunct2, THEN conjunct2, THEN conjunct1] b3 b4 l10
  have c3: "snd (snd (send_udppacket (example_env\<lparr>lzo1x_1_compress := (\<lambda>src l. (- 4, 3, src))\<rparr>) (example_world\<lparr>nodes := (\<lambda>n. example_node\<lparr>outcompression := 10\<rparr>)\<rparr>) 0 \<lparr>len = 3, priority = 0, seqno = 0, data = [1, 2, 3]\<rparr>)) \<noteq> Dropped_compress"
    by blast
  have f1: "fst (snd (lzo1x_1_compress (example_env\<lparr>compress2 := (\<lambda>src l level. (- 2, 0, []))\<rparr>) (data \<lparr>len = 3, priority = 0, seqno = 0, data = [1, 2, 3]\<rparr>) (len \<lparr>len = 3, priority = 0, seqno = 0, data = [1, 2, 3]\<rparr>))) \<le> 32767"
    and f2: "fst (snd (lzo1x_999_compress (example_env\<lparr>compress2 := (\<lambda>src l level. (- 2, 0, []))\<rparr>) (data \<lparr>len = 3, priority = 0, seqno = 0, data = [1, 2, 3]\<rparr>) (len \<lparr>len = 3, priority = 0, seqno = 0, data = [1, 2, 3]\<rparr>))) \<le> 32767"
    by (simp_all add: example_env_def)
  have r9: "0 \<le> outcompression (nodes (example_world\<lparr>nodes := (\<lambda>n. example_node\<lparr>outcompression := 9\<rparr>)\<rparr>) 0) \<and> outcompression (nodes (example_world\<lparr>nodes := (\<lambda>n. example_node\<lparr>outcompression := 9\<rparr>)\<rparr>) 0) \<le> 11"
    by (simp add: example_world_def example_node_def)
  have d9: "snd (snd (send_udppacket (example_env\<lparr>compress2 := (\<lambda>src l level. (- 2, 0, []))\<rparr>) (example_world\<lparr>nodes := (\<lambda>n. example_node\<lparr>outcompression := 9\<rparr>)\<rparr>) 0 \<lparr>len = 3, priority = 0, seqno = 0, data = [1, 2, 3]\<rparr>)) = Dropped_compress"
    by (simp add: send_udppacket_def compress_step_def compress_packet_def Z_OK_def Let_def
          example_env_def to_length_t_def example_world_def example_node_def)
  from compress_packet_lzo_never_fails[of "example_env\<lparr>compress2 := (\<lambda>src l level. (- 2, 0, []))\<rparr>" "[1, 2, 3]" 3
      "\<lparr>len = 3, priority = 0, seqno = 0, data = [1, 2, 3]\<rparr>"
      "example_world\<lparr>nodes := (\<lambda>n. example_node\<lparr>outcompression := 9\<rparr>)\<rparr>" 0,
         THEN conjunct2, THEN conjunct2, THEN conjunct2] f1 f2 r9 d9
  have c4: "1 \<le> outcompression (nodes (example_world\<lparr>nodes := (\<lambda>n. example_node\<lparr>outcompression := 9\<rparr>)\<rparr>) 0) \<and> outcompression (nodes (example_world\<lparr>nodes := (\<lambda>n. example_node\<lparr>outcompression := 9\<rparr>)\<rparr>) 0) \<le> 9"
    by blast
  from b1 c1 b2 c2 l10 c3 f1 f2 r9 d9 c4 show ?thesis
    by blast
qed

text \<open>
  Without the bound the claim fails: a compressor that stores 40000 makes
  \<^verbatim>\<open>compress_packet\<close> return -25536 at level 10, and \<^verbatim>\<open>send_udppacket\<close> takes the drop
  after a compression error.
\<close>

theorem compress_packet_lzo_narrowed:
  "compress_packet (example_env\<lparr>lzo1x_1_compress := (\<lambda>src l. (0, 40000, src))\<rparr>) (data \<lparr>len = 3, priority = 0, seqno = 0, data = [1, 2, 3]\<rparr>) (len \<lparr>len = 3, priority = 0, seqno = 0, data = [1, 2, 3]\<rparr>) 10 = ([1, 2, 3], - 25536)
   \<and> outcompression (nodes (example_world\<lparr>nodes := (\<lambda>n. example_node\<lparr>outcompression := 10\<rparr>)\<rparr>) 0) = 10
   \<and> snd (snd (send_udppacket (example_env\<lparr>lzo1x_1_compress := (\<lambda>src l. (0, 40000, src))\<rparr>) (example_world\<lparr>nodes := (\<lambda>n. example_node\<lparr>outcompression := 10\<rparr>)\<rparr>) 0 \<lparr>len = 3, priority = 0, seqno = 0, data = [1, 2, 3]\<rparr>)) = Dropped_compress"
  by (simp add: send_udppacket_def compress_step_def compress_packet_def to_length_t_def Let_def
        example_env_def example_world_def example_node_def)

subsection \<open>Frames that reach \<^verbatim>\<open>sendto\<close>\<close>

text \<open>
  What a call of \<^verbatim>\<open>send_udppacket\<close> that reached \<^verbatim>\<open>sendto\<close> has done: one \<^verbatim>\<open>sendto\<close>,
  after at most one \<^verbatim>\<open>setsockopt\<close>; the counter of the peer advanced by one; the MTU
  fields tightened when \<^verbatim>\<open>sendto\<close> failed with \<^verbatim>\<open>EMSGSIZE\<close>; and the slot of the frame,
  as the cipher got it (or as it was sent, without a cipher), holds the advanced counter
  in network byte order.
\<close>

lemma transmit_result:
  assumes "transmit env w n inpkt origlen origpriority = (w', r)"
  shows "\<exists>pre. trace w' = trace w @ pre
                  @ [Sendto (ls_udp (listen_socket env (find_sock env (nodes w n))))
                       (seqno inpkt) (data inpkt) (len inpkt) (address (nodes w n))]
            \<and> (pre = [] \<or> pre = [Setsockopt_tos (ls_udp (listen_socket env (find_sock env (nodes w n)))) origpriority])"
    and "nodes w' = (if r = Sendto_EMSGSIZE then (nodes w)(n := emsgsize origlen (nodes w n)) else nodes w)"
  using assms unfolding transmit_def Let_def emit_def
  by (auto split: if_splits)

lemma send_udppacket_Udp:
  assumes "send_udppacket env w n origpkt = (w', pkt', Udp r)"
  shows "\<exists>fd sq d l pre.
      trace w' = trace w @ pre @ [Sendto fd sq d l (address (nodes w n))]
    \<and> (pre = [] \<or> pre = [Setsockopt_tos fd (priority origpkt)])
    \<and> nodes w' = (nodes w)(n := (if r = Sendto_EMSGSIZE then emsgsize (len origpkt) else id)
                                   ((nodes w n)\<lparr>sent_seqno := sent_seqno (nodes w n) + 1\<rparr>))
    \<and> (if cipher_active env (outcipher (nodes w n))
        then \<exists>d0 l0 d1 outlen.
               cipher_encrypt env (outcipher (nodes w n)) (htonl (sent_seqno (nodes w n) + 1)) d0 l0
                 = Some (sq, d1, outlen)
        else sq = htonl (sent_seqno (nodes w n) + 1))"
proof -
  define nd where "nd = nodes w n"
  define nd1 where "nd1 = nd\<lparr>sent_seqno := sent_seqno nd + 1\<rparr>"
  define w1 where "w1 = w\<lparr>nodes := (nodes w)(n := nd1)\<rparr>"
  from assms obtain inpkt0 alias0 where c: "compress_step env nd origpkt = Some (inpkt0, alias0)"
    unfolding send_udppacket_def Let_def nd_def
    by (auto split: if_splits option.splits)
  define inpkt1 where "inpkt1 = inpkt0\<lparr>seqno := htonl (sent_seqno nd1), len := len inpkt0 + 4\<rparr>"
  from assms c obtain inpkt2 alias2 where e: "encrypt_step env nd1 inpkt1 alias0 = Some (inpkt2, alias2)"
    unfolding send_udppacket_def Let_def nd_def nd1_def inpkt1_def
    by (auto split: if_splits option.splits)
  from assms c e have t: "transmit env w1 n (mac_step env nd1 inpkt2) (len origpkt) (priority origpkt) = (w', r)"
    unfolding send_udppacket_def Let_def nd_def nd1_def inpkt1_def w1_def
    by (auto split: if_splits option.splits prod.splits)
  have sq2: "if cipher_active env (outcipher nd)
        then \<exists>d0 l0 d1 outlen.
               cipher_encrypt env (outcipher nd) (htonl (sent_seqno nd + 1)) d0 l0
                 = Some (seqno inpkt2, d1, outlen)
        else seqno inpkt2 = htonl (sent_seqno nd + 1)"
    using e unfolding encrypt_step_def inpkt1_def nd1_def
    by (fastforce split: if_splits option.splits)
  have sqm: "seqno (mac_step env nd1 inpkt2) = seqno inpkt2"
    by (simp add: mac_step_def)
  have n1: "nodes w1 n = nd1" and a1: "address nd1 = address nd" and t1: "trace w1 = trace w"
    by (simp_all add: w1_def nd1_def)
  from transmit_result[OF t] obtain pre where
    tr: "trace w' = trace w1 @ pre
                  @ [Sendto (ls_udp (listen_socket env (find_sock env (nodes w1 n))))
                       (seqno (mac_step env nd1 inpkt2)) (data (mac_step env nd1 inpkt2))
                       (len (mac_step env nd1 inpkt2)) (address (nodes w1 n))]"
    and pre: "pre = [] \<or> pre = [Setsockopt_tos (ls_udp (listen_socket env (find_sock env (nodes w1 n)))) (priority origpkt)]"
    and nw: "nodes w' = (if r = Sendto_EMSGSIZE then (nodes w1)(n := emsgsize (len origpkt) (nodes w1 n)) else nodes w1)"
    by blast
  have nw': "nodes w' = (nodes w)(n := (if r = Sendto_EMSGSIZE then emsgsize (len origpkt) else id) nd1)"
    using nw by (simp add: w1_def)
  define fd where "fd = ls_udp (listen_socket env (find_sock env (nodes w1 n)))"
  define d where "d = data (mac_step env nd1 inpkt2)"
  define l where "l = len (mac_step env nd1 inpkt2)"
  have tr': "trace w' = trace w @ pre @ [Sendto fd (seqno inpkt2) d l (address (nodes w n))]"
    using tr by (simp add: sqm n1 a1 t1 fd_def d_def l_def nd_def)
  have pre': "pre = [] \<or> pre = [Setsockopt_tos fd (priority origpkt)]"
    using pre by (simp add: fd_def)
  have nw'': "nodes w' = (nodes w)(n := (if r = Sendto_EMSGSIZE then emsgsize (len origpkt) else id)
                                   ((nodes w n)\<lparr>sent_seqno := sent_seqno (nodes w n) + 1\<rparr>))"
    using nw' by (simp add: nd1_def nd_def)
  have sq2': "if cipher_active env (outcipher (nodes w n))
        then \<exists>d0 l0 d1 outlen.
               cipher_encrypt env (outcipher (nodes w n)) (htonl (sent_seqno (nodes w n) + 1)) d0 l0
                 = Some (seqno inpkt2, d1, outlen)
        else seqno inpkt2 = htonl (sent_seqno (nodes w n) + 1)"
    using sq2 unfolding nd_def .
  from tr' pre' nw'' sq2' show ?thesis
    by blast
qed


lemma emsgsize_fields:
  "emsgsize l nd = nd\<lparr>maxmtu := (if maxmtu nd \<ge> l then l - 1 else maxmtu nd),
                       mtu := (if mtu nd \<ge> l then l - 1 else mtu nd)\<rparr>"
  by (simp add: emsgsize_def Let_def)

lemma outcome_eq:
  assumes "snd (snd x) = o'"
  shows "x = (fst x, fst (snd x), o')"
  using assms by (cases x) auto

text \<open>
  A call that fails in the cipher has advanced the counter all the same, and sent
  nothing.
\<close>

lemma send_udppacket_failed_encrypt:
  assumes "send_udppacket env w n origpkt = (w', pkt', Failed_encrypt)"
  shows "trace w' = trace w
       \<and> nodes w' = (nodes w)(n := (nodes w n)\<lparr>sent_seqno := sent_seqno (nodes w n) + 1\<rparr>)"
proof -
  have vk: "validkey (nodes w n)"
  proof (rule ccontr)
    assume "\<not> validkey (nodes w n)"
    then have "snd (snd (send_udppacket env w n origpkt)) = Tcp_no_key"
      by (simp add: send_udppacket_def Let_def)
    with assms show False
      by simp
  qed
  have pm: "(options (nodes w n) AND OPTION_PMTU_DISCOVERY env \<noteq> 0 \<and> minmtu (nodes w n) = 0
              \<and> (data origpkt ! 12 OR data origpkt ! 13) \<noteq> 0) = False"
  proof (rule ccontr)
    assume "(options (nodes w n) AND OPTION_PMTU_DISCOVERY env \<noteq> 0 \<and> minmtu (nodes w n) = 0
              \<and> (data origpkt ! 12 OR data origpkt ! 13) \<noteq> 0) \<noteq> False"
    then have t: "(options (nodes w n) AND OPTION_PMTU_DISCOVERY env \<noteq> 0 \<and> minmtu (nodes w n) = 0
              \<and> (data origpkt ! 12 OR data origpkt ! 13) \<noteq> 0) = True"
      by blast
    have "snd (snd (send_udppacket env w n origpkt)) = Tcp_no_minmtu"
      unfolding send_udppacket_def Let_def t using vk by simp
    with assms show False
      by simp
  qed
  obtain c where c: "compress_step env (nodes w n) origpkt = Some c"
  proof (cases "compress_step env (nodes w n) origpkt")
    case None
    then have "snd (snd (send_udppacket env w n origpkt)) = Dropped_compress"
      unfolding send_udppacket_def Let_def pm using vk by simp
    with assms show ?thesis
      by simp
  next
    case (Some c)
    then show ?thesis
      by (rule that)
  qed
  obtain a al where ca: "c = (a, al)"
    by (cases c)
  define nd1 where "nd1 = (nodes w n)\<lparr>sent_seqno := sent_seqno (nodes w n) + 1\<rparr>"
  define a1 where "a1 = a\<lparr>seqno := htonl (sent_seqno nd1), len := len a + 4\<rparr>"
  show ?thesis
  proof (cases "encrypt_step env nd1 a1 al")
    case None
    then have "fst (send_udppacket env w n origpkt) = w\<lparr>nodes := (nodes w)(n := nd1)\<rparr>"
      unfolding send_udppacket_def Let_def pm using vk c ca by (simp add: nd1_def a1_def)
    with assms show ?thesis
      by (simp add: nd1_def)
  next
    case (Some b)
    obtain b1 bl where b: "b = (b1, bl)"
      by (cases b)
    obtain w2 r where t: "transmit env (w\<lparr>nodes := (nodes w)(n := nd1)\<rparr>) n
                                (mac_step env nd1 b1) (len origpkt) (priority origpkt) = (w2, r)"
      by (cases "transmit env (w\<lparr>nodes := (nodes w)(n := nd1)\<rparr>) n
                                (mac_step env nd1 b1) (len origpkt) (priority origpkt)")
    have "snd (snd (send_udppacket env w n origpkt)) = Udp r"
      unfolding send_udppacket_def Let_def pm using vk c ca Some b t by (simp add: nd1_def a1_def)
    with assms show ?thesis
      by simp
  qed
qed

text \<open>
  \<^verbatim>\<open>htonl\<close> puts the most significant byte of its argument first in memory: byte \<open>k\<close>
  of the result is byte \<open>3 - k\<close> of the argument. \<^verbatim>\<open>ntohl\<close> undoes it.
\<close>

lemma mask_ff: "(0xFF :: uint32_t) = mask 8" by (simp add: mask_eq_exp_minus_1)
lemma mask_ff00: "(0xFF00 :: uint32_t) = push_bit 8 (mask 8)" by (simp add: mask_eq_exp_minus_1)
lemma mask_ff0000: "(0xFF0000 :: uint32_t) = push_bit 16 (mask 8)" by (simp add: mask_eq_exp_minus_1)

lemma htonl_bit:
  "bit (htonl x) k \<longleftrightarrow>
     (if k < 8 then bit x (k + 24)
      else if k < 16 then bit x (k + 8)
      else if k < 24 then bit x (k - 8)
      else k < 32 \<and> bit x (k - 24))"
  unfolding htonl_def mask_ff mask_ff00 mask_ff0000
  by (auto simp: bit_simps add.commute dest: bit_imp_le_length)

lemma htonl_involution: "ntohl (htonl x) = x"
  unfolding ntohl_def
  by (rule bit_word_eqI) (auto simp: htonl_bit)

lemma htonl_bytes:
  "ucast (htonl x) = (ucast (drop_bit 24 x) :: byte)"
  "ucast (drop_bit 8 (htonl x)) = (ucast (drop_bit 16 x) :: byte)"
  "ucast (drop_bit 16 (htonl x)) = (ucast (drop_bit 8 x) :: byte)"
  "ucast (drop_bit 24 (htonl x)) = (ucast x :: byte)"
  by (rule bit_word_eqI; auto simp: bit_simps htonl_bit add.commute)+

subsection \<open>Tightening the MTU on \<^verbatim>\<open>EMSGSIZE\<close>\<close>

text \<open>
  C8 (as amended). After a call of \<^verbatim>\<open>send_udppacket\<close> whose \<^verbatim>\<open>sendto\<close> failed with
  \<^verbatim>\<open>EMSGSIZE\<close>, for a frame of length \<open>origlen\<close> before compression: \<^verbatim>\<open>maxmtu\<close> is
  \<open>origlen - 1\<close> if it was at least \<open>origlen\<close>, and likewise \<^verbatim>\<open>mtu\<close>; \<^verbatim>\<open>sent_seqno\<close> has
  been incremented, as in every send that reaches \<^verbatim>\<open>sendto\<close>; no other field of the peer
  and no other peer has changed; and the frame is lost: the call made that one
  \<^verbatim>\<open>sendto\<close> and nothing after it.
\<close>

theorem emsgsize_tightens_mtu:
  assumes "send_udppacket env w n origpkt = (w', pkt', Udp Sendto_EMSGSIZE)"
  shows "nodes w' = (nodes w)(n := (nodes w n)
            \<lparr>sent_seqno := sent_seqno (nodes w n) + 1,
             maxmtu := (if maxmtu (nodes w n) \<ge> len origpkt then len origpkt - 1
                        else maxmtu (nodes w n)),
             mtu := (if mtu (nodes w n) \<ge> len origpkt then len origpkt - 1
                     else mtu (nodes w n))\<rparr>)
       \<and> (\<exists>fd sq d l pre.
             trace w' = trace w @ pre @ [Sendto fd sq d l (address (nodes w n))]
           \<and> (pre = [] \<or> pre = [Setsockopt_tos fd (priority origpkt)]))"
proof -
  from send_udppacket_Udp[OF assms] obtain fd sq d l pre where
    tr: "trace w' = trace w @ pre @ [Sendto fd sq d l (address (nodes w n))]"
    and pre: "pre = [] \<or> pre = [Setsockopt_tos fd (priority origpkt)]"
    and nw: "nodes w' = (nodes w)(n := (if Sendto_EMSGSIZE = Sendto_EMSGSIZE then emsgsize (len origpkt) else id)
                                   ((nodes w n)\<lparr>sent_seqno := sent_seqno (nodes w n) + 1\<rparr>))"
    by blast
  have "nodes w' = (nodes w)(n := (nodes w n)
            \<lparr>sent_seqno := sent_seqno (nodes w n) + 1,
             maxmtu := (if maxmtu (nodes w n) \<ge> len origpkt then len origpkt - 1
                        else maxmtu (nodes w n)),
             mtu := (if mtu (nodes w n) \<ge> len origpkt then len origpkt - 1
                     else mtu (nodes w n))\<rparr>)"
    unfolding nw by (simp add: emsgsize_fields)
  with tr pre show ?thesis
    by blast
qed

theorem emsgsize_tightens_mtu_witness:
  "snd (snd (send_udppacket (example_env\<lparr>sendto := (\<lambda>fd sq d l sa. Sendto_EMSGSIZE)\<rparr>) example_world 0
               \<lparr>len = 900, priority = 0, seqno = 0, data = replicate 900 7\<rparr>)) = Udp Sendto_EMSGSIZE
   \<and> maxmtu (nodes (fst (send_udppacket (example_env\<lparr>sendto := (\<lambda>fd sq d l sa. Sendto_EMSGSIZE)\<rparr>)
               example_world 0 \<lparr>len = 900, priority = 0, seqno = 0, data = replicate 900 7\<rparr>)) 0) = 899
   \<and> mtu (nodes (fst (send_udppacket (example_env\<lparr>sendto := (\<lambda>fd sq d l sa. Sendto_EMSGSIZE)\<rparr>)
               example_world 0 \<lparr>len = 900, priority = 0, seqno = 0, data = replicate 900 7\<rparr>)) 0) = 899"
proof -
  have o: "snd (snd (send_udppacket (example_env\<lparr>sendto := (\<lambda>fd sq d l sa. Sendto_EMSGSIZE)\<rparr>) example_world 0
               \<lparr>len = 900, priority = 0, seqno = 0, data = replicate 900 7\<rparr>)) = Udp Sendto_EMSGSIZE"
    by (simp add: send_udppacket_def compress_step_def encrypt_step_def mac_step_def transmit_def
          example_env_def to_length_t_def example_world_def example_node_def Let_def)
  from emsgsize_tightens_mtu[OF outcome_eq[OF o]] o show ?thesis
    by (simp add: example_world_def example_node_def)
qed

text \<open>
  The claim as it was stated (no field but \<^verbatim>\<open>maxmtu\<close> and \<^verbatim>\<open>mtu\<close> changes) fails on
  \<^verbatim>\<open>sent_seqno\<close>: the send that failed has advanced it.
\<close>

theorem emsgsize_send_advances_seqno:
  "snd (snd (send_udppacket (example_env\<lparr>sendto := (\<lambda>fd sq d l sa. Sendto_EMSGSIZE)\<rparr>) example_world 0
               \<lparr>len = 900, priority = 0, seqno = 0, data = replicate 900 7\<rparr>)) = Udp Sendto_EMSGSIZE
   \<and> sent_seqno (nodes example_world 0) = 0
   \<and> sent_seqno (nodes (fst (send_udppacket (example_env\<lparr>sendto := (\<lambda>fd sq d l sa. Sendto_EMSGSIZE)\<rparr>)
               example_world 0 \<lparr>len = 900, priority = 0, seqno = 0, data = replicate 900 7\<rparr>)) 0) = 1"
  by (simp add: send_udppacket_def compress_step_def encrypt_step_def mac_step_def transmit_def
        emsgsize_def example_env_def to_length_t_def example_world_def example_node_def Let_def emit_def)

subsection \<open>Datagrams from an unknown source address\<close>

text \<open>
  What \<^verbatim>\<open>try_harder\<close> returns: the peer of the first edge whose address matches the
  source (the port apart) and whose peer's \<^verbatim>\<open>try_mac\<close> accepts the packet; when there
  is none, the peer of the first edge whose address matches; when there is none
  either, nothing.
\<close>

lemma try_harder_loop_find:
  "try_harder_loop env w sa pkt n es =
     (case find (\<lambda>e. sockaddrcmp_noport env sa (e_address e) = 0
                      \<and> try_mac env (nodes w (e_to e)) pkt) es of
        Some e \<Rightarrow> Some (e_to e)
      | None \<Rightarrow>
         (case n of
            Some m \<Rightarrow> Some m
          | None \<Rightarrow> map_option e_to (find (\<lambda>e. sockaddrcmp_noport env sa (e_address e) = 0) es)))"
  by (induction es arbitrary: n) (auto split: option.splits)

lemma receive_udppacket_unauthenticated:
  assumes "digest_active env (indigest (nodes w n))"
    and "\<not> digest_verify env (indigest (nodes w n)) (seqno pkt) (data pkt) (len pkt)"
  shows "receive_udppacket env w n pkt = w"
  using assms by (simp add: receive_udppacket_def Let_def)

text \<open>
  C1 (as amended). For an inbound datagram whose source address \<^verbatim>\<open>lookup_node_udp\<close> does
  not know, \<^verbatim>\<open>try_harder\<close> returns the first address-matching peer whose inbound MAC
  verifies the packet, and else the first address-matching peer. Whatever peer it
  returns has its address updated through \<^verbatim>\<open>update_node_udp\<close> and is handed the packet
  in \<^verbatim>\<open>receive_udppacket\<close>; when no edge matches, nothing happens. When the digest of the
  returned peer is active and does not verify the packet, the address update is all
  that happens: nothing is delivered.
\<close>

theorem try_harder_resolution:
  assumes "lookup_node_udp env (sockaddrunmap env sa0) = None"
    and "0 \<le> len pkt"
  shows "try_harder env w (sockaddrunmap env sa0) pkt =
           (case find (\<lambda>e. sockaddrcmp_noport env (sockaddrunmap env sa0) (e_address e) = 0
                            \<and> try_mac env (nodes w (e_to e)) pkt) (edge_weight_tree env) of
              Some e \<Rightarrow> Some (e_to e)
            | None \<Rightarrow>
               map_option e_to
                 (find (\<lambda>e. sockaddrcmp_noport env (sockaddrunmap env sa0) (e_address e) = 0)
                    (edge_weight_tree env)))
       \<and> handle_incoming_vpn_data env w pkt sa0 =
           (case try_harder env w (sockaddrunmap env sa0) pkt of
              None \<Rightarrow> w
            | Some n \<Rightarrow> receive_udppacket env (update_node_udp w n (sockaddrunmap env sa0)) n pkt)
       \<and> (\<forall>n. try_harder env w (sockaddrunmap env sa0) pkt = Some n
              \<and> digest_active env (indigest (nodes w n))
              \<and> \<not> digest_verify env (indigest (nodes w n)) (seqno pkt) (data pkt) (len pkt)
            \<longrightarrow> handle_incoming_vpn_data env w pkt sa0
                  = update_node_udp w n (sockaddrunmap env sa0))"
proof -
  have a: "try_harder env w (sockaddrunmap env sa0) pkt =
           (case find (\<lambda>e. sockaddrcmp_noport env (sockaddrunmap env sa0) (e_address e) = 0
                            \<and> try_mac env (nodes w (e_to e)) pkt) (edge_weight_tree env) of
              Some e \<Rightarrow> Some (e_to e)
            | None \<Rightarrow>
               map_option e_to
                 (find (\<lambda>e. sockaddrcmp_noport env (sockaddrunmap env sa0) (e_address e) = 0)
                    (edge_weight_tree env)))"
    by (simp add: try_harder_def try_harder_loop_find split: option.splits)
  have b: "handle_incoming_vpn_data env w pkt sa0 =
           (case try_harder env w (sockaddrunmap env sa0) pkt of
              None \<Rightarrow> w
            | Some n \<Rightarrow> receive_udppacket env (update_node_udp w n (sockaddrunmap env sa0)) n pkt)"
    using assms by (simp add: handle_incoming_vpn_data_def Let_def)
  have c: "handle_incoming_vpn_data env w pkt sa0 = update_node_udp w n (sockaddrunmap env sa0)"
    if t: "try_harder env w (sockaddrunmap env sa0) pkt = Some n"
      and da: "digest_active env (indigest (nodes w n))"
      and dv: "\<not> digest_verify env (indigest (nodes w n)) (seqno pkt) (data pkt) (len pkt)"
    for n
  proof -
    have i: "indigest (nodes (update_node_udp w n (sockaddrunmap env sa0)) n) = indigest (nodes w n)"
      by (simp add: update_node_udp_def emit_def)
    show ?thesis
      unfolding b t using da dv
      by (simp add: receive_udppacket_unauthenticated i)
  qed
  from a b c show ?thesis
    by blast
qed

theorem try_harder_resolution_witness:
  "lookup_node_udp (example_env\<lparr>edge_weight_tree := [\<lparr>e_address = \<lparr>sa_family = 2, sa_host = [10, 0, 0, 9], sa_port = 655\<rparr>, e_to = 3\<rparr>],
                      digest_verify := (\<lambda>d sq dt l. False)\<rparr>) (sockaddrunmap (example_env\<lparr>edge_weight_tree := [\<lparr>e_address = \<lparr>sa_family = 2, sa_host = [10, 0, 0, 9], sa_port = 655\<rparr>, e_to = 3\<rparr>],
                      digest_verify := (\<lambda>d sq dt l. False)\<rparr>) \<lparr>sa_family = 2, sa_host = [10, 0, 0, 9], sa_port = 4000\<rparr>) = None
   \<and> 0 \<le> len \<lparr>len = 20, priority = 0, seqno = 0, data = replicate 16 0\<rparr>
   \<and> try_harder (example_env\<lparr>edge_weight_tree := [\<lparr>e_address = \<lparr>sa_family = 2, sa_host = [10, 0, 0, 9], sa_port = 655\<rparr>, e_to = 3\<rparr>],
                      digest_verify := (\<lambda>d sq dt l. False)\<rparr>) example_world (sockaddrunmap (example_env\<lparr>edge_weight_tree := [\<lparr>e_address = \<lparr>sa_family = 2, sa_host = [10, 0, 0, 9], sa_port = 655\<rparr>, e_to = 3\<rparr>],
                      digest_verify := (\<lambda>d sq dt l. False)\<rparr>) \<lparr>sa_family = 2, sa_host = [10, 0, 0, 9], sa_port = 4000\<rparr>) \<lparr>len = 20, priority = 0, seqno = 0, data = replicate 16 0\<rparr> = Some 3
   \<and> digest_active (example_env\<lparr>edge_weight_tree := [\<lparr>e_address = \<lparr>sa_family = 2, sa_host = [10, 0, 0, 9], sa_port = 655\<rparr>, e_to = 3\<rparr>],
                      digest_verify := (\<lambda>d sq dt l. False)\<rparr>) (indigest (nodes example_world 3))
   \<and> \<not> digest_verify (example_env\<lparr>edge_weight_tree := [\<lparr>e_address = \<lparr>sa_family = 2, sa_host = [10, 0, 0, 9], sa_port = 655\<rparr>, e_to = 3\<rparr>],
                      digest_verify := (\<lambda>d sq dt l. False)\<rparr>) (indigest (nodes example_world 3)) (seqno \<lparr>len = 20, priority = 0, seqno = 0, data = replicate 16 0\<rparr>) (data \<lparr>len = 20, priority = 0, seqno = 0, data = replicate 16 0\<rparr>) (len \<lparr>len = 20, priority = 0, seqno = 0, data = replicate 16 0\<rparr>)
   \<and> handle_incoming_vpn_data (example_env\<lparr>edge_weight_tree := [\<lparr>e_address = \<lparr>sa_family = 2, sa_host = [10, 0, 0, 9], sa_port = 655\<rparr>, e_to = 3\<rparr>],
                      digest_verify := (\<lambda>d sq dt l. False)\<rparr>) example_world \<lparr>len = 20, priority = 0, seqno = 0, data = replicate 16 0\<rparr> \<lparr>sa_family = 2, sa_host = [10, 0, 0, 9], sa_port = 4000\<rparr>
       = update_node_udp example_world 3 (sockaddrunmap (example_env\<lparr>edge_weight_tree := [\<lparr>e_address = \<lparr>sa_family = 2, sa_host = [10, 0, 0, 9], sa_port = 655\<rparr>, e_to = 3\<rparr>],
                      digest_verify := (\<lambda>d sq dt l. False)\<rparr>) \<lparr>sa_family = 2, sa_host = [10, 0, 0, 9], sa_port = 4000\<rparr>)"
proof -
  have h1: "lookup_node_udp (example_env\<lparr>edge_weight_tree := [\<lparr>e_address = \<lparr>sa_family = 2, sa_host = [10, 0, 0, 9], sa_port = 655\<rparr>, e_to = 3\<rparr>],
                      digest_verify := (\<lambda>d sq dt l. False)\<rparr>) (sockaddrunmap (example_env\<lparr>edge_weight_tree := [\<lparr>e_address = \<lparr>sa_family = 2, sa_host = [10, 0, 0, 9], sa_port = 655\<rparr>, e_to = 3\<rparr>],
                      digest_verify := (\<lambda>d sq dt l. False)\<rparr>) \<lparr>sa_family = 2, sa_host = [10, 0, 0, 9], sa_port = 4000\<rparr>) = None"
    by (simp add: example_env_def)
  have h2: "0 \<le> len \<lparr>len = 20, priority = 0, seqno = 0, data = replicate 16 0\<rparr>"
    by simp
  have t: "try_harder (example_env\<lparr>edge_weight_tree := [\<lparr>e_address = \<lparr>sa_family = 2, sa_host = [10, 0, 0, 9], sa_port = 655\<rparr>, e_to = 3\<rparr>],
                      digest_verify := (\<lambda>d sq dt l. False)\<rparr>) example_world (sockaddrunmap (example_env\<lparr>edge_weight_tree := [\<lparr>e_address = \<lparr>sa_family = 2, sa_host = [10, 0, 0, 9], sa_port = 655\<rparr>, e_to = 3\<rparr>],
                      digest_verify := (\<lambda>d sq dt l. False)\<rparr>) \<lparr>sa_family = 2, sa_host = [10, 0, 0, 9], sa_port = 4000\<rparr>) \<lparr>len = 20, priority = 0, seqno = 0, data = replicate 16 0\<rparr> = Some 3"
    by (simp add: try_harder_def try_mac_def example_env_def example_world_def example_node_def)
  have da: "digest_active (example_env\<lparr>edge_weight_tree := [\<lparr>e_address = \<lparr>sa_family = 2, sa_host = [10, 0, 0, 9], sa_port = 655\<rparr>, e_to = 3\<rparr>],
                      digest_verify := (\<lambda>d sq dt l. False)\<rparr>) (indigest (nodes example_world 3))"
    by (simp add: example_env_def example_world_def example_node_def)
  have dv: "\<not> digest_verify (example_env\<lparr>edge_weight_tree := [\<lparr>e_address = \<lparr>sa_family = 2, sa_host = [10, 0, 0, 9], sa_port = 655\<rparr>, e_to = 3\<rparr>],
                      digest_verify := (\<lambda>d sq dt l. False)\<rparr>) (indigest (nodes example_world 3)) (seqno \<lparr>len = 20, priority = 0, seqno = 0, data = replicate 16 0\<rparr>) (data \<lparr>len = 20, priority = 0, seqno = 0, data = replicate 16 0\<rparr>) (len \<lparr>len = 20, priority = 0, seqno = 0, data = replicate 16 0\<rparr>)"
    by (simp add: example_env_def)
  from try_harder_resolution[OF h1 h2, of example_world] t da dv
  have "handle_incoming_vpn_data (example_env\<lparr>edge_weight_tree := [\<lparr>e_address = \<lparr>sa_family = 2, sa_host = [10, 0, 0, 9], sa_port = 655\<rparr>, e_to = 3\<rparr>],
                      digest_verify := (\<lambda>d sq dt l. False)\<rparr>) example_world \<lparr>len = 20, priority = 0, seqno = 0, data = replicate 16 0\<rparr> \<lparr>sa_family = 2, sa_host = [10, 0, 0, 9], sa_port = 4000\<rparr>
       = update_node_udp example_world 3 (sockaddrunmap (example_env\<lparr>edge_weight_tree := [\<lparr>e_address = \<lparr>sa_family = 2, sa_host = [10, 0, 0, 9], sa_port = 655\<rparr>, e_to = 3\<rparr>],
                      digest_verify := (\<lambda>d sq dt l. False)\<rparr>) \<lparr>sa_family = 2, sa_host = [10, 0, 0, 9], sa_port = 4000\<rparr>)"
    by blast
  with h1 h2 t da dv show ?thesis
    by blast
qed

text \<open>
  The claim as it was stated (a peer found by address match alone never has its
  address updated) fails: with one edge at the source's host and a digest that rejects
  the packet, \<^verbatim>\<open>try_mac\<close> fails and the address of the peer of that edge is updated all
  the same.
\<close>

theorem try_harder_address_only:
  "lookup_node_udp
     (example_env\<lparr>edge_weight_tree := [\<lparr>e_address = \<lparr>sa_family = 2, sa_host = [10, 0, 0, 9], sa_port = 655\<rparr>, e_to = 3\<rparr>],
                   digest_verify := (\<lambda>d sq dt l. False)\<rparr>)
     \<lparr>sa_family = 2, sa_host = [10, 0, 0, 9], sa_port = 4000\<rparr> = None
   \<and> \<not> try_mac
        (example_env\<lparr>edge_weight_tree := [\<lparr>e_address = \<lparr>sa_family = 2, sa_host = [10, 0, 0, 9], sa_port = 655\<rparr>, e_to = 3\<rparr>],
                      digest_verify := (\<lambda>d sq dt l. False)\<rparr>)
        (nodes example_world 3) \<lparr>len = 20, priority = 0, seqno = 0, data = replicate 16 0\<rparr>
   \<and> handle_incoming_vpn_data
        (example_env\<lparr>edge_weight_tree := [\<lparr>e_address = \<lparr>sa_family = 2, sa_host = [10, 0, 0, 9], sa_port = 655\<rparr>, e_to = 3\<rparr>],
                      digest_verify := (\<lambda>d sq dt l. False)\<rparr>)
        example_world \<lparr>len = 20, priority = 0, seqno = 0, data = replicate 16 0\<rparr>
        \<lparr>sa_family = 2, sa_host = [10, 0, 0, 9], sa_port = 4000\<rparr>
     = example_world
         \<lparr>nodes := (nodes example_world)
                     (3 := (nodes example_world 3)\<lparr>address := \<lparr>sa_family = 2, sa_host = [10, 0, 0, 9], sa_port = 4000\<rparr>\<rparr>),
          trace := [Update_node_udp 3 \<lparr>sa_family = 2, sa_host = [10, 0, 0, 9], sa_port = 4000\<rparr>]\<rparr>"
  by (simp add: handle_incoming_vpn_data_def try_harder_def try_mac_def update_node_udp_def
        receive_udppacket_def emit_def example_env_def example_world_def example_node_def Let_def)


subsection \<open>Probe replies\<close>

text \<open>The sequence number check changes \<^verbatim>\<open>received_seqno\<close> and \<^verbatim>\<open>late\<close> only.\<close>

lemma check_seqno_fields:
  assumes "check_seqno nd sq = Some nd'"
  shows "nd' = nd\<lparr>received_seqno := received_seqno nd', late := late nd'\<rparr>"
proof -
  define X where "X =
     (if sq \<noteq> received_seqno nd + 1 then
        (if unat sq \<ge> unat (received_seqno nd) + length (late nd) * 8 then
           Some (nd\<lparr>late := replicate (length (late nd)) 0\<rparr>)
         else if unat sq \<le> unat (received_seqno nd) then
           (if (unat (received_seqno nd) \<ge> length (late nd) * 8
                  \<and> unat sq \<le> unat (received_seqno nd) - length (late nd) * 8)
               \<or> \<not> late_test (late nd) (unat sq) then None
            else Some nd)
         else Some (nd\<lparr>late := fold (\<lambda>u l. late_mark l (sint (word_of_nat u :: uint32_t)))
                                   [unat (received_seqno nd) + 1 ..< unat sq] (late nd)\<rparr>))
      else Some nd)"
  have c: "check_seqno nd sq =
     (case X of
        None \<Rightarrow> None
      | Some nd \<Rightarrow>
         (let nd = nd\<lparr>late := late_clear (late nd) (unat sq)\<rparr>
          in Some (if unat sq > unat (received_seqno nd) then nd\<lparr>received_seqno := sq\<rparr> else nd)))"
    unfolding check_seqno_def X_def Let_def ..
  from assms c obtain nd1 where x: "X = Some nd1"
    and n': "nd' = (let nd = nd1\<lparr>late := late_clear (late nd1) (unat sq)\<rparr>
          in (if unat sq > unat (received_seqno nd) then nd\<lparr>received_seqno := sq\<rparr> else nd))"
    by (cases X) (auto simp: Let_def)
  have "nd1 = nd\<lparr>late := late nd1\<rparr>"
    using x unfolding X_def by (auto split: if_splits)
  then obtain l where "nd1 = nd\<lparr>late := l\<rparr>"
    by blast
  then show ?thesis
    unfolding n' Let_def by simp
qed

text \<open>
  C9 (as amended). For a datagram that \<^verbatim>\<open>receive_udppacket\<close> takes as far as the probe
  handler as a reply (authenticated, decrypted to a frame \<open>p\<close>, accepted by the replay
  check, decompressed to a frame \<open>q\<close> whose bytes 12 and 13 are zero and whose first
  byte is not), the length \<open>L\<close> given to \<^verbatim>\<open>mtu_probe_h\<close> is the length of the decrypted
  payload, \<open>len p - 4\<close>, before decompression, less \<open>MTU / 64 + 20\<close> when inbound
  compression is on. \<^verbatim>\<open>minmtu\<close> is set to \<open>L\<close> when \<open>L\<close> is greater, and is unchanged
  otherwise; the replay check has not touched it.
\<close>

theorem probe_reply_minmtu:
  assumes ca: "cipher_active env (incipher (nodes w n))"
    and ln: "\<not> (0 \<le> len inpkt \<and> len inpkt < 4 + int (digest_length env (indigest (nodes w n))))"
    and mac: "digest_active env (indigest (nodes w n)) \<longrightarrow>
              digest_verify env (indigest (nodes w n)) (seqno inpkt) (data inpkt) (len inpkt)"
    and dec: "decrypt_step env (nodes w n) inpkt = Some p"
    and chk: "check_seqno (nodes w n) (ntohl (seqno p)) = Some nd"
    and unc: "uncompress_step env nd (p\<lparr>len := len p - 4, seqno := ntohl (seqno p)\<rparr>) = Some (q, L)"
    and probe: "data q ! 12 = 0 \<and> data q ! 13 = 0 \<and> data q ! 0 \<noteq> 0"
  shows "L = len p - 4 - (if incompression (nodes w n) \<noteq> 0 then MTU env div 64 + 20 else 0)
       \<and> minmtu nd = minmtu (nodes w n)
       \<and> nodes (receive_udppacket env w n inpkt)
           = (nodes w)(n := nd\<lparr>minmtu := (if minmtu nd < L then L else minmtu nd)\<rparr>)"
proof -
  from check_seqno_fields[OF chk]
  have f: "nd = (nodes w n)\<lparr>received_seqno := received_seqno nd, late := late nd\<rparr>" .
  have ic: "incompression nd = incompression (nodes w n)"
    by (subst f) simp
  have mm: "minmtu nd = minmtu (nodes w n)"
    by (subst f) simp
  have l: "L = len p - 4 - (if incompression (nodes w n) \<noteq> 0 then MTU env div 64 + 20 else 0)"
    using unc unfolding uncompress_step_def Let_def ic
    by (auto split: if_splits prod.splits)
  have r: "receive_udppacket env w n inpkt =
             mtu_probe_h env
               (let w1 = w\<lparr>nodes := (nodes w)(n := nd)\<rparr>
                in if unat (received_seqno nd) > MAX_SEQNO then emit Regenerate_key w1 else w1)
               n (q\<lparr>priority := 0\<rparr>) L"
  proof -
    have c2: "(0 \<le> len inpkt \<and> len inpkt < 4 + int (digest_length env (indigest (nodes w n)))) = False"
      using ln by simp
    have c3: "(digest_active env (indigest (nodes w n))
              \<and> \<not> digest_verify env (indigest (nodes w n)) (seqno inpkt) (data inpkt) (len inpkt)) = False"
      using mac by simp
    show ?thesis
      unfolding receive_udppacket_def Let_def c2 c3
      using ca dec chk unc probe by simp
  qed
  have "nodes (receive_udppacket env w n inpkt)
           = (nodes w)(n := nd\<lparr>minmtu := (if minmtu nd < L then L else minmtu nd)\<rparr>)"
    unfolding r using probe
    by (auto simp: mtu_probe_h_def Let_def emit_def)
  with l mm show ?thesis
    by blast
qed


theorem probe_reply_minmtu_witness:
  "cipher_active example_env (incipher (nodes example_world 0))
   \<and> \<not> (0 \<le> len \<lparr>len = 1004, priority = 0, seqno = 16777216, data = 1 # replicate 999 0\<rparr>
        \<and> len \<lparr>len = 1004, priority = 0, seqno = 16777216, data = 1 # replicate 999 0\<rparr> < 4 + int (digest_length example_env (indigest (nodes example_world 0))))
   \<and> digest_verify example_env (indigest (nodes example_world 0)) (seqno \<lparr>len = 1004, priority = 0, seqno = 16777216, data = 1 # replicate 999 0\<rparr>) (data \<lparr>len = 1004, priority = 0, seqno = 16777216, data = 1 # replicate 999 0\<rparr>) (len \<lparr>len = 1004, priority = 0, seqno = 16777216, data = 1 # replicate 999 0\<rparr>)
   \<and> decrypt_step example_env (nodes example_world 0) \<lparr>len = 1004, priority = 0, seqno = 16777216, data = 1 # replicate 999 0\<rparr> = Some \<lparr>len = 1004, priority = 0, seqno = 16777216, data = 1 # replicate 999 0\<rparr>
   \<and> check_seqno (nodes example_world 0) (ntohl (seqno \<lparr>len = 1004, priority = 0, seqno = 16777216, data = 1 # replicate 999 0\<rparr>))
       = Some (example_node\<lparr>received_seqno := 1\<rparr>)
   \<and> uncompress_step example_env (example_node\<lparr>received_seqno := 1\<rparr>)
         (\<lparr>len = 1004, priority = 0, seqno = 16777216, data = 1 # replicate 999 0\<rparr>\<lparr>len := len \<lparr>len = 1004, priority = 0, seqno = 16777216, data = 1 # replicate 999 0\<rparr> - 4, seqno := ntohl (seqno \<lparr>len = 1004, priority = 0, seqno = 16777216, data = 1 # replicate 999 0\<rparr>)\<rparr>)
       = Some (\<lparr>len = 1000, priority = 0, seqno = 1, data = 1 # replicate 999 0\<rparr>, 1000)
   \<and> data \<lparr>len = 1000, priority = 0, seqno = 1, data = 1 # replicate 999 0\<rparr> ! 12 = 0
   \<and> data \<lparr>len = 1000, priority = 0, seqno = 1, data = 1 # replicate 999 0\<rparr> ! 13 = 0
   \<and> data \<lparr>len = 1000, priority = 0, seqno = 1, data = 1 # replicate 999 0\<rparr> ! 0 \<noteq> 0
   \<and> minmtu (nodes (receive_udppacket example_env example_world 0 \<lparr>len = 1004, priority = 0, seqno = 16777216, data = 1 # replicate 999 0\<rparr>) 0) = 1000"
proof -
  have nt: "ntohl 16777216 = 1"
    by (simp add: ntohl_def htonl_def)
  have ca: "cipher_active example_env (incipher (nodes example_world 0))"
    by (simp add: example_env_def example_world_def example_node_def)
  have ln: "\<not> (0 \<le> len \<lparr>len = 1004, priority = 0, seqno = 16777216, data = 1 # replicate 999 0\<rparr>
        \<and> len \<lparr>len = 1004, priority = 0, seqno = 16777216, data = 1 # replicate 999 0\<rparr> < 4 + int (digest_length example_env (indigest (nodes example_world 0))))"
    by (simp add: example_env_def)
  have dv: "digest_verify example_env (indigest (nodes example_world 0)) (seqno \<lparr>len = 1004, priority = 0, seqno = 16777216, data = 1 # replicate 999 0\<rparr>) (data \<lparr>len = 1004, priority = 0, seqno = 16777216, data = 1 # replicate 999 0\<rparr>) (len \<lparr>len = 1004, priority = 0, seqno = 16777216, data = 1 # replicate 999 0\<rparr>)"
    by (simp add: example_env_def)
  then have mac: "digest_active example_env (indigest (nodes example_world 0)) \<longrightarrow>
      digest_verify example_env (indigest (nodes example_world 0)) (seqno \<lparr>len = 1004, priority = 0, seqno = 16777216, data = 1 # replicate 999 0\<rparr>) (data \<lparr>len = 1004, priority = 0, seqno = 16777216, data = 1 # replicate 999 0\<rparr>) (len \<lparr>len = 1004, priority = 0, seqno = 16777216, data = 1 # replicate 999 0\<rparr>)"
    by simp
  have dec: "decrypt_step example_env (nodes example_world 0) \<lparr>len = 1004, priority = 0, seqno = 16777216, data = 1 # replicate 999 0\<rparr> = Some \<lparr>len = 1004, priority = 0, seqno = 16777216, data = 1 # replicate 999 0\<rparr>"
    by (simp add: decrypt_step_def example_env_def to_length_t_def example_world_def example_node_def)
  have chk: "check_seqno (nodes example_world 0) (ntohl (seqno \<lparr>len = 1004, priority = 0, seqno = 16777216, data = 1 # replicate 999 0\<rparr>))
       = Some (example_node\<lparr>received_seqno := 1\<rparr>)"
    by (simp add: nt check_seqno_def example_world_def example_node_def late_clear_zero)
  have unc: "uncompress_step example_env (example_node\<lparr>received_seqno := 1\<rparr>)
         (\<lparr>len = 1004, priority = 0, seqno = 16777216, data = 1 # replicate 999 0\<rparr>\<lparr>len := len \<lparr>len = 1004, priority = 0, seqno = 16777216, data = 1 # replicate 999 0\<rparr> - 4, seqno := ntohl (seqno \<lparr>len = 1004, priority = 0, seqno = 16777216, data = 1 # replicate 999 0\<rparr>)\<rparr>)
       = Some (\<lparr>len = 1000, priority = 0, seqno = 1, data = 1 # replicate 999 0\<rparr>, 1000)"
    by (simp add: nt uncompress_step_def example_node_def)
  have pr: "data \<lparr>len = 1000, priority = 0, seqno = 1, data = 1 # replicate 999 0\<rparr> ! 12 = 0
      \<and> data \<lparr>len = 1000, priority = 0, seqno = 1, data = 1 # replicate 999 0\<rparr> ! 13 = 0
      \<and> data \<lparr>len = 1000, priority = 0, seqno = 1, data = 1 # replicate 999 0\<rparr> ! 0 \<noteq> 0"
    by simp
  have "minmtu (nodes (receive_udppacket example_env example_world 0 \<lparr>len = 1004, priority = 0, seqno = 16777216, data = 1 # replicate 999 0\<rparr>) 0) = 1000"
    using probe_reply_minmtu[OF ca ln mac dec chk unc pr]
    by (simp add: example_node_def)
  with ca ln dv dec chk unc pr show ?thesis
    by blast
qed

text \<open>
  The claim as it was stated (\<open>L\<close> is the decompressed length) fails with compression
  on: a reply that arrives as 100 compressed bytes and decompresses to 1000 bytes sets
  \<^verbatim>\<open>minmtu\<close> to \<open>100 - (1518 div 64 + 20) = 57\<close>.
\<close>

theorem probe_reply_compressed_length:
  "snd (uncompress_packet
          (example_env\<lparr>lzo1x_decompress_safe := (\<lambda>src l. (0, 1000, 1 # replicate 999 0))\<rparr>)
          (replicate 100 5) 100 10) = 1000
   \<and> fst (uncompress_packet
          (example_env\<lparr>lzo1x_decompress_safe := (\<lambda>src l. (0, 1000, 1 # replicate 999 0))\<rparr>)
          (replicate 100 5) 100 10) = 1 # replicate 999 0
   \<and> minmtu (nodes (example_world\<lparr>nodes := (\<lambda>n. example_node\<lparr>incompression := 10\<rparr>)\<rparr>) 0) = 0
   \<and> minmtu (nodes (receive_udppacket
          (example_env\<lparr>lzo1x_decompress_safe := (\<lambda>src l. (0, 1000, 1 # replicate 999 0))\<rparr>)
          (example_world\<lparr>nodes := (\<lambda>n. example_node\<lparr>incompression := 10\<rparr>)\<rparr>) 0
          \<lparr>len = 104, priority = 0, seqno = 16777216, data = replicate 100 5\<rparr>) 0) = 57"
proof -
  have nt: "ntohl 16777216 = 1"
    by (simp add: ntohl_def htonl_def)
  show ?thesis
    by (simp add: receive_udppacket_def decrypt_step_def uncompress_step_def uncompress_packet_def
          check_seqno_def late_clear_zero mtu_probe_h_def nt LZO_E_OK_def MAX_SEQNO_def
          example_env_def to_length_t_def example_world_def example_node_def Let_def)
qed

subsection \<open>The order of the MTU fields\<close>

text \<open>
  A call of \<^verbatim>\<open>send_udppacket\<close> changes the node it sends to, and that in one of four
  ways; receiving a datagram changes the receiving node and, through the reply to a
  probe, the node the reply leaves by. None of them puts \<^verbatim>\<open>mtu\<close> above \<^verbatim>\<open>maxmtu\<close>.
\<close>

lemma emsgsize_order:
  assumes "mtu nd \<le> maxmtu nd"
  shows "mtu (emsgsize l nd) \<le> maxmtu (emsgsize l nd)"
  using assms by (simp add: emsgsize_fields)

lemma send_udppacket_nodes:
  "\<exists>nd'. nodes (fst (send_udppacket env w n pkt)) = (nodes w)(n := nd')
         \<and> (nd' = nodes w n
            \<or> nd' = (nodes w n)\<lparr>waitingforkey := True\<rparr>
            \<or> nd' = (nodes w n)\<lparr>sent_seqno := sent_seqno (nodes w n) + 1\<rparr>
            \<or> nd' = emsgsize (len pkt) ((nodes w n)\<lparr>sent_seqno := sent_seqno (nodes w n) + 1\<rparr>))"
proof (cases "validkey (nodes w n)")
  case False
  then have "nodes (fst (send_udppacket env w n pkt))
               = (nodes w)(n := (nodes w n)\<lparr>waitingforkey := True\<rparr>)"
    by (simp add: send_udppacket_def Let_def emit_def)
  then show ?thesis
    by blast
next
  case vk: True
  show ?thesis
  proof (cases "options (nodes w n) AND OPTION_PMTU_DISCOVERY env \<noteq> 0 \<and> minmtu (nodes w n) = 0
              \<and> (data pkt ! 12 OR data pkt ! 13) \<noteq> 0")
    case True
    then have "nodes (fst (send_udppacket env w n pkt)) = (nodes w)(n := nodes w n)"
      using vk by (simp add: send_udppacket_def Let_def emit_def)
    then show ?thesis
      by blast
  next
    case False
    then have pm: "(options (nodes w n) AND OPTION_PMTU_DISCOVERY env \<noteq> 0 \<and> minmtu (nodes w n) = 0
              \<and> (data pkt ! 12 OR data pkt ! 13) \<noteq> 0) = False"
      by blast
    show ?thesis
    proof (cases "compress_step env (nodes w n) pkt")
      case None
      then have "nodes (fst (send_udppacket env w n pkt)) = (nodes w)(n := nodes w n)"
        unfolding send_udppacket_def Let_def pm using vk by simp
      then show ?thesis
        by blast
    next
      case (Some c)
      obtain a al where c: "c = (a, al)"
        by (cases c)
      define nd1 where "nd1 = (nodes w n)\<lparr>sent_seqno := sent_seqno (nodes w n) + 1\<rparr>"
      define a1 where "a1 = a\<lparr>seqno := htonl (sent_seqno nd1), len := len a + 4\<rparr>"
      show ?thesis
      proof (cases "encrypt_step env nd1 a1 al")
        case None
        then have "nodes (fst (send_udppacket env w n pkt)) = (nodes w)(n := nd1)"
          unfolding send_udppacket_def Let_def pm using vk Some c by (simp add: nd1_def a1_def)
        then show ?thesis
          unfolding nd1_def by blast
      next
        case e: (Some b)
        obtain b1 bl where b: "b = (b1, bl)"
          by (cases b)
        obtain w' r where t: "transmit env (w\<lparr>nodes := (nodes w)(n := nd1)\<rparr>) n
                                (mac_step env nd1 b1) (len pkt) (priority pkt) = (w', r)"
          by (cases "transmit env (w\<lparr>nodes := (nodes w)(n := nd1)\<rparr>) n
                                (mac_step env nd1 b1) (len pkt) (priority pkt)")
        have "fst (send_udppacket env w n pkt) = w'"
          unfolding send_udppacket_def Let_def pm using vk Some c e b t by (simp add: nd1_def a1_def)
        moreover have "nodes w' = (if r = Sendto_EMSGSIZE then (nodes w)(n := emsgsize (len pkt) nd1)
                                   else (nodes w)(n := nd1))"
          using transmit_result(2)[OF t] by simp
        ultimately show ?thesis
          unfolding nd1_def by (cases "r = Sendto_EMSGSIZE") auto
      qed
    qed
  qed
qed

lemma send_udppacket_order:
  assumes "\<forall>m. mtu (nodes w m) \<le> maxmtu (nodes w m)"
  shows "\<forall>m. mtu (nodes (fst (send_udppacket env w n pkt)) m)
            \<le> maxmtu (nodes (fst (send_udppacket env w n pkt)) m)"
proof -
  from send_udppacket_nodes[of env w n pkt] obtain nd' where
    n: "nodes (fst (send_udppacket env w n pkt)) = (nodes w)(n := nd')"
    and c: "nd' = nodes w n
            \<or> nd' = (nodes w n)\<lparr>waitingforkey := True\<rparr>
            \<or> nd' = (nodes w n)\<lparr>sent_seqno := sent_seqno (nodes w n) + 1\<rparr>
            \<or> nd' = emsgsize (len pkt) ((nodes w n)\<lparr>sent_seqno := sent_seqno (nodes w n) + 1\<rparr>)"
    by blast
  have "mtu (nodes w n) \<le> maxmtu (nodes w n)"
    using assms by blast
  then have "mtu nd' \<le> maxmtu nd'"
    using c emsgsize_order[of "(nodes w n)\<lparr>sent_seqno := sent_seqno (nodes w n) + 1\<rparr>" "len pkt"]
    by auto
  then show ?thesis
    unfolding n using assms by simp
qed

lemma send_packet_order:
  assumes "\<forall>m. mtu (nodes w m) \<le> maxmtu (nodes w m)"
  shows "\<forall>m. mtu (nodes (fst (send_packet env w n pkt)) m)
            \<le> maxmtu (nodes (fst (send_packet env w n pkt)) m)"
proof -
  have u: "fst (case send_udppacket env w v pkt of (w, packet, outcome) \<Rightarrow> (w, packet))
             = fst (send_udppacket env w v pkt)" for v
    by (cases "send_udppacket env w v pkt") simp
  show ?thesis
    unfolding send_packet_def Let_def
    using assms send_udppacket_order[OF assms]
    by (simp add: emit_def u)
qed

lemma mtu_probe_h_order:
  assumes "\<forall>m. mtu (nodes w m) \<le> maxmtu (nodes w m)"
  shows "\<forall>m. mtu (nodes (mtu_probe_h env w n pkt l) m)
            \<le> maxmtu (nodes (mtu_probe_h env w n pkt l) m)"
  unfolding mtu_probe_h_def
  using assms send_packet_order[OF assms]
  by simp

lemma receive_udppacket_cases:
  "receive_udppacket env w n pkt = w
   \<or> (\<exists>p nd. check_seqno (nodes w n) (ntohl (seqno p)) = Some nd
          \<and> receive_udppacket env w n pkt =
               (case uncompress_step env nd (p\<lparr>len := len p - 4, seqno := ntohl (seqno p)\<rparr>) of
                  None \<Rightarrow> (if unat (received_seqno nd) > MAX_SEQNO
                    then emit Regenerate_key (w\<lparr>nodes := (nodes w)(n := nd)\<rparr>)
                    else w\<lparr>nodes := (nodes w)(n := nd)\<rparr>)
                | Some (q, L) \<Rightarrow>
                   if data q ! 12 = 0 \<and> data q ! 13 = 0
                   then mtu_probe_h env (if unat (received_seqno nd) > MAX_SEQNO
                    then emit Regenerate_key (w\<lparr>nodes := (nodes w)(n := nd)\<rparr>)
                    else w\<lparr>nodes := (nodes w)(n := nd)\<rparr>) n (q\<lparr>priority := 0\<rparr>) L
                   else receive_packet (if unat (received_seqno nd) > MAX_SEQNO
                    then emit Regenerate_key (w\<lparr>nodes := (nodes w)(n := nd)\<rparr>)
                    else w\<lparr>nodes := (nodes w)(n := nd)\<rparr>) n (q\<lparr>priority := 0\<rparr>)))"
proof (cases "decrypt_step env (nodes w n) pkt")
  case None
  then have "receive_udppacket env w n pkt = w"
    by (simp add: receive_udppacket_def Let_def)
  then show ?thesis
    by blast
next
  case (Some p)
  show ?thesis
  proof (cases "check_seqno (nodes w n) (ntohl (seqno p))")
    case None
    then have "receive_udppacket env w n pkt = w"
      using Some by (simp add: receive_udppacket_def Let_def)
    then show ?thesis
      by blast
  next
    case c: (Some nd)
    have "receive_udppacket env w n pkt = w
        \<or> receive_udppacket env w n pkt =
               (case uncompress_step env nd (p\<lparr>len := len p - 4, seqno := ntohl (seqno p)\<rparr>) of
                  None \<Rightarrow> (if unat (received_seqno nd) > MAX_SEQNO
                    then emit Regenerate_key (w\<lparr>nodes := (nodes w)(n := nd)\<rparr>)
                    else w\<lparr>nodes := (nodes w)(n := nd)\<rparr>)
                | Some (q, L) \<Rightarrow>
                   if data q ! 12 = 0 \<and> data q ! 13 = 0
                   then mtu_probe_h env (if unat (received_seqno nd) > MAX_SEQNO
                    then emit Regenerate_key (w\<lparr>nodes := (nodes w)(n := nd)\<rparr>)
                    else w\<lparr>nodes := (nodes w)(n := nd)\<rparr>) n (q\<lparr>priority := 0\<rparr>) L
                   else receive_packet (if unat (received_seqno nd) > MAX_SEQNO
                    then emit Regenerate_key (w\<lparr>nodes := (nodes w)(n := nd)\<rparr>)
                    else w\<lparr>nodes := (nodes w)(n := nd)\<rparr>) n (q\<lparr>priority := 0\<rparr>))"
      using Some c by (simp add: receive_udppacket_def Let_def split: option.splits)
    with c show ?thesis
      by blast
  qed
qed

lemma receive_udppacket_order:
  assumes "\<forall>m. mtu (nodes w m) \<le> maxmtu (nodes w m)"
  shows "\<forall>m. mtu (nodes (receive_udppacket env w n pkt) m)
            \<le> maxmtu (nodes (receive_udppacket env w n pkt) m)"
proof -
  from receive_udppacket_cases[of env w n pkt]
  consider "receive_udppacket env w n pkt = w"
    | p nd where "check_seqno (nodes w n) (ntohl (seqno p)) = Some nd"
        and "receive_udppacket env w n pkt =
               (case uncompress_step env nd (p\<lparr>len := len p - 4, seqno := ntohl (seqno p)\<rparr>) of
                  None \<Rightarrow> (if unat (received_seqno nd) > MAX_SEQNO
                    then emit Regenerate_key (w\<lparr>nodes := (nodes w)(n := nd)\<rparr>)
                    else w\<lparr>nodes := (nodes w)(n := nd)\<rparr>)
                | Some (q, L) \<Rightarrow>
                   if data q ! 12 = 0 \<and> data q ! 13 = 0
                   then mtu_probe_h env (if unat (received_seqno nd) > MAX_SEQNO
                    then emit Regenerate_key (w\<lparr>nodes := (nodes w)(n := nd)\<rparr>)
                    else w\<lparr>nodes := (nodes w)(n := nd)\<rparr>) n (q\<lparr>priority := 0\<rparr>) L
                   else receive_packet (if unat (received_seqno nd) > MAX_SEQNO
                    then emit Regenerate_key (w\<lparr>nodes := (nodes w)(n := nd)\<rparr>)
                    else w\<lparr>nodes := (nodes w)(n := nd)\<rparr>) n (q\<lparr>priority := 0\<rparr>))"
    by blast
  then show ?thesis
  proof cases
    case 1
    then show ?thesis
      using assms by simp
  next
    case 2
    define w1 where "w1 = (if unat (received_seqno nd) > MAX_SEQNO
                    then emit Regenerate_key (w\<lparr>nodes := (nodes w)(n := nd)\<rparr>)
                    else w\<lparr>nodes := (nodes w)(n := nd)\<rparr>)"
    from check_seqno_fields[OF 2(1)]
    have f: "nd = (nodes w n)\<lparr>received_seqno := received_seqno nd, late := late nd\<rparr>" .
    have "mtu nd = mtu (nodes w n)" "maxmtu nd = maxmtu (nodes w n)"
      by (subst f, simp)+
    then have i1: "\<forall>m. mtu (nodes w1 m) \<le> maxmtu (nodes w1 m)"
      using assms by (simp add: w1_def emit_def)
    show ?thesis
      unfolding 2(2) w1_def[symmetric]
      using i1 mtu_probe_h_order[OF i1]
      by (auto simp: receive_packet_def emit_def split: option.splits)
  qed
qed

lemma step_order:
  assumes "\<forall>m. mtu (nodes w m) \<le> maxmtu (nodes w m)"
    and "\<not> is_probe_timer x"
  shows "\<forall>m. mtu (nodes (step w x) m) \<le> maxmtu (nodes (step w x) m)"
  using assms receive_udppacket_order[OF assms(1)] send_udppacket_order[OF assms(1)]
  by (cases x) simp_all

text \<open>
  When the probe timer finds \<^verbatim>\<open>minmtu\<close> at or above \<^verbatim>\<open>maxmtu\<close>, it fixes \<^verbatim>\<open>mtu\<close> to
  \<^verbatim>\<open>minmtu\<close>, whatever \<^verbatim>\<open>maxmtu\<close> is.
\<close>

lemma run_snoc: "run w (xs @ [x]) = step (run w xs) x"
  by (induction xs arbitrary: w) simp_all

lemma probe_handler_fixes_mtu:
  assumes "maxmtu (nodes w n) \<le> minmtu (nodes w n)"
    and "minmtu (nodes w n) \<noteq> 0"
  shows "nodes (send_mtu_probe_handler env w n)
           = (nodes w)(n := (nodes w n)\<lparr>mtuprobes := mtuprobes (nodes w n) + 1,
                                         mtu := minmtu (nodes w n)\<rparr>)"
  unfolding send_mtu_probe_handler_def
  using assms by (simp add: Let_def numeral_3_eq_3)

lemma example_run_2:
  "nodes (run example_world [(Udp_recv example_env 0 \<lparr>len = 1004, priority = 0, seqno = 16777216, data = 1 # replicate 999 0\<rparr>),
         (Udp_send (example_env\<lparr>sendto := (\<lambda>fd sq d l sa. Sendto_EMSGSIZE)\<rparr>) 0
           \<lparr>len = 900, priority = 0, seqno = 0, data = replicate 900 7\<rparr>)]) 0
   = example_node\<lparr>received_seqno := 1, sent_seqno := 1, minmtu := 1000, mtu := 899, maxmtu := 899\<rparr>"
proof -
  have nt: "ntohl 16777216 = 1"
    by (simp add: ntohl_def htonl_def)
  show ?thesis
    by (simp add: receive_udppacket_def decrypt_step_def uncompress_step_def
          check_seqno_def late_clear_zero mtu_probe_h_def nt MAX_SEQNO_def
          send_udppacket_def compress_step_def encrypt_step_def mac_step_def transmit_def
          emsgsize_def emit_def
          example_env_def to_length_t_def example_world_def example_node_def Let_def)
qed

text \<open>
  C5 (as amended). After any sequence of received datagrams (probe receptions among
  them) and UDP sends (those failing with \<^verbatim>\<open>EMSGSIZE\<close> among them), \<open>mtu \<le> maxmtu\<close>
  holds for every peer if it held for every peer before. Nothing keeps \<^verbatim>\<open>minmtu\<close>
  below \<^verbatim>\<open>mtu\<close>, and a probe emission is not part of the sequence: it may set \<^verbatim>\<open>mtu\<close>
  to a \<^verbatim>\<open>minmtu\<close> above \<^verbatim>\<open>maxmtu\<close>.
\<close>

theorem mtu_at_most_maxmtu:
  assumes "\<forall>m. mtu (nodes w m) \<le> maxmtu (nodes w m)"
    and "\<forall>x \<in> set ops. \<not> is_probe_timer x"
  shows "\<forall>m. mtu (nodes (run w ops) m) \<le> maxmtu (nodes (run w ops) m)"
  using assms
proof (induction ops arbitrary: w)
  case Nil
  then show ?case
    by simp
next
  case (Cons x xs)
  have "\<forall>m. mtu (nodes (step w x) m) \<le> maxmtu (nodes (step w x) m)"
    using Cons.prems by (intro step_order) simp_all
  then show ?case
    using Cons.IH[of "step w x"] Cons.prems(2) by simp
qed


theorem mtu_at_most_maxmtu_witness:
  "(\<forall>m. mtu (nodes example_world m) \<le> maxmtu (nodes example_world m))
   \<and> \<not> is_probe_timer (Udp_recv example_env 0 \<lparr>len = 1004, priority = 0, seqno = 16777216, data = 1 # replicate 999 0\<rparr>)
   \<and> \<not> is_probe_timer (Udp_send (example_env\<lparr>sendto := (\<lambda>fd sq d l sa. Sendto_EMSGSIZE)\<rparr>) 0
           \<lparr>len = 900, priority = 0, seqno = 0, data = replicate 900 7\<rparr>)
   \<and> mtu (nodes (run example_world [(Udp_recv example_env 0 \<lparr>len = 1004, priority = 0, seqno = 16777216, data = 1 # replicate 999 0\<rparr>),
         (Udp_send (example_env\<lparr>sendto := (\<lambda>fd sq d l sa. Sendto_EMSGSIZE)\<rparr>) 0
           \<lparr>len = 900, priority = 0, seqno = 0, data = replicate 900 7\<rparr>)]) 0)
       \<le> maxmtu (nodes (run example_world [(Udp_recv example_env 0 \<lparr>len = 1004, priority = 0, seqno = 16777216, data = 1 # replicate 999 0\<rparr>),
         (Udp_send (example_env\<lparr>sendto := (\<lambda>fd sq d l sa. Sendto_EMSGSIZE)\<rparr>) 0
           \<lparr>len = 900, priority = 0, seqno = 0, data = replicate 900 7\<rparr>)]) 0)"
proof -
  have h1: "\<forall>m. mtu (nodes example_world m) \<le> maxmtu (nodes example_world m)"
    by (simp add: example_world_def example_node_def)
  have h2: "\<forall>x \<in> set [(Udp_recv example_env 0 \<lparr>len = 1004, priority = 0, seqno = 16777216, data = 1 # replicate 999 0\<rparr>),
         (Udp_send (example_env\<lparr>sendto := (\<lambda>fd sq d l sa. Sendto_EMSGSIZE)\<rparr>) 0
           \<lparr>len = 900, priority = 0, seqno = 0, data = replicate 900 7\<rparr>)]. \<not> is_probe_timer x"
    by simp
  from mtu_at_most_maxmtu[OF h1 h2] h1 show ?thesis
    by simp
qed

text \<open>
  The claim as it was stated fails. A peer starts with \<^verbatim>\<open>minmtu\<close> 0 and \<^verbatim>\<open>mtu\<close> and
  \<^verbatim>\<open>maxmtu\<close> 1500. A probe reply of 1000 bytes raises \<^verbatim>\<open>minmtu\<close> to 1000; a send of 900
  bytes then fails with \<^verbatim>\<open>EMSGSIZE\<close> and lowers \<^verbatim>\<open>mtu\<close> and \<^verbatim>\<open>maxmtu\<close> to 899, below
  \<^verbatim>\<open>minmtu\<close>; the probe timer then fixes \<^verbatim>\<open>mtu\<close> to 1000, above \<^verbatim>\<open>maxmtu\<close>.
\<close>

theorem mtu_order_broken:
  "minmtu (nodes example_world 0) \<le> mtu (nodes example_world 0)
   \<and> mtu (nodes example_world 0) \<le> maxmtu (nodes example_world 0)
   \<and> minmtu (nodes (run example_world [(Udp_recv example_env 0 \<lparr>len = 1004, priority = 0, seqno = 16777216, data = 1 # replicate 999 0\<rparr>),
         (Udp_send (example_env\<lparr>sendto := (\<lambda>fd sq d l sa. Sendto_EMSGSIZE)\<rparr>) 0
           \<lparr>len = 900, priority = 0, seqno = 0, data = replicate 900 7\<rparr>)]) 0) = 1000
   \<and> mtu (nodes (run example_world [(Udp_recv example_env 0 \<lparr>len = 1004, priority = 0, seqno = 16777216, data = 1 # replicate 999 0\<rparr>),
         (Udp_send (example_env\<lparr>sendto := (\<lambda>fd sq d l sa. Sendto_EMSGSIZE)\<rparr>) 0
           \<lparr>len = 900, priority = 0, seqno = 0, data = replicate 900 7\<rparr>)]) 0) = 899
   \<and> maxmtu (nodes (run example_world [(Udp_recv example_env 0 \<lparr>len = 1004, priority = 0, seqno = 16777216, data = 1 # replicate 999 0\<rparr>),
         (Udp_send (example_env\<lparr>sendto := (\<lambda>fd sq d l sa. Sendto_EMSGSIZE)\<rparr>) 0
           \<lparr>len = 900, priority = 0, seqno = 0, data = replicate 900 7\<rparr>)]) 0) = 899
   \<and> mtu (nodes (run example_world [(Udp_recv example_env 0 \<lparr>len = 1004, priority = 0, seqno = 16777216, data = 1 # replicate 999 0\<rparr>),
         (Udp_send (example_env\<lparr>sendto := (\<lambda>fd sq d l sa. Sendto_EMSGSIZE)\<rparr>) 0
           \<lparr>len = 900, priority = 0, seqno = 0, data = replicate 900 7\<rparr>),
         (Probe_timer example_env 0)]) 0) = 1000
   \<and> maxmtu (nodes (run example_world [(Udp_recv example_env 0 \<lparr>len = 1004, priority = 0, seqno = 16777216, data = 1 # replicate 999 0\<rparr>),
         (Udp_send (example_env\<lparr>sendto := (\<lambda>fd sq d l sa. Sendto_EMSGSIZE)\<rparr>) 0
           \<lparr>len = 900, priority = 0, seqno = 0, data = replicate 900 7\<rparr>),
         (Probe_timer example_env 0)]) 0) = 899"
proof -
  define W2 where "W2 = run example_world [(Udp_recv example_env 0 \<lparr>len = 1004, priority = 0, seqno = 16777216, data = 1 # replicate 999 0\<rparr>),
         (Udp_send (example_env\<lparr>sendto := (\<lambda>fd sq d l sa. Sendto_EMSGSIZE)\<rparr>) 0
           \<lparr>len = 900, priority = 0, seqno = 0, data = replicate 900 7\<rparr>)]"
  have n2: "nodes W2 0
      = example_node\<lparr>received_seqno := 1, sent_seqno := 1, minmtu := 1000, mtu := 899, maxmtu := 899\<rparr>"
    unfolding W2_def by (rule example_run_2)
  have "run example_world ([(Udp_recv example_env 0 \<lparr>len = 1004, priority = 0, seqno = 16777216, data = 1 # replicate 999 0\<rparr>),
         (Udp_send (example_env\<lparr>sendto := (\<lambda>fd sq d l sa. Sendto_EMSGSIZE)\<rparr>) 0
           \<lparr>len = 900, priority = 0, seqno = 0, data = replicate 900 7\<rparr>)] @ [(Probe_timer example_env 0)]) = step W2 (Probe_timer example_env 0)"
    unfolding W2_def by (rule run_snoc)
  then have r3: "run example_world [(Udp_recv example_env 0 \<lparr>len = 1004, priority = 0, seqno = 16777216, data = 1 # replicate 999 0\<rparr>),
         (Udp_send (example_env\<lparr>sendto := (\<lambda>fd sq d l sa. Sendto_EMSGSIZE)\<rparr>) 0
           \<lparr>len = 900, priority = 0, seqno = 0, data = replicate 900 7\<rparr>),
         (Probe_timer example_env 0)] = send_mtu_probe_handler example_env W2 0"
    by (simp only: append.simps step.simps)
  have h1: "maxmtu (nodes W2 0) \<le> minmtu (nodes W2 0)"
    by (simp add: n2)
  have h2: "minmtu (nodes W2 0) \<noteq> 0"
    by (simp add: n2)
  have i: "minmtu (nodes example_world 0) \<le> mtu (nodes example_world 0)
         \<and> mtu (nodes example_world 0) \<le> maxmtu (nodes example_world 0)"
    by (simp add: example_world_def example_node_def)
  have a: "minmtu (nodes W2 0) = 1000 \<and> mtu (nodes W2 0) = 899 \<and> maxmtu (nodes W2 0) = 899"
    by (simp add: n2)
  have b: "mtu (nodes (send_mtu_probe_handler example_env W2 0) 0) = 1000
         \<and> maxmtu (nodes (send_mtu_probe_handler example_env W2 0) 0) = 899"
    unfolding probe_handler_fixes_mtu[OF h1 h2] by (simp add: n2)
  from i a b show ?thesis
    unfolding r3 W2_def by blast
qed

subsection \<open>The sequence counter of sent frames\<close>
















end
